theory Spec2Isabelle
  imports Complex_Main "HOL-Library.Sublist"
begin

section \<open>Text primitives\<close>

text \<open>
  Python \<open>str\<close> values are modelled as HOL strings (lists of 8-bit characters); a code
  point outside ASCII stands as its UTF-8 bytes. Case mapping, digit and white-space tests
  are the ASCII ones. The substring test \<open>a in b\<close> is \<^const>\<open>sublist\<close>,
  \<open>b.startswith(a)\<close> is \<^const>\<open>prefix\<close> and \<open>b.endswith(a)\<close> is \<^const>\<open>suffix\<close>.
  A backslash cannot be written inside a HOL string literal, so it is spelled \<open>bs\<close>.
\<close>

abbreviation bs :: string where
  "bs \<equiv> [CHR 0x5C]"

definition lower_char :: "char \<Rightarrow> char" where
  "lower_char c = (let n = (of_char c :: nat) in if 65 \<le> n \<and> n \<le> 90 then char_of (n + 32) else c)"

definition upper_char :: "char \<Rightarrow> char" where
  "upper_char c = (let n = (of_char c :: nat) in if 97 \<le> n \<and> n \<le> 122 then char_of (n - 32) else c)"

definition lower :: "string \<Rightarrow> string" where
  "lower s = map lower_char s"

definition upper :: "string \<Rightarrow> string" where
  "upper s = map upper_char s"

definition isdigit :: "char \<Rightarrow> bool" where
  "isdigit c = (let n = (of_char c :: nat) in 48 \<le> n \<and> n \<le> 57)"

definition isspace :: "char \<Rightarrow> bool" where
  "isspace c = (let n = (of_char c :: nat) in (9 \<le> n \<and> n \<le> 13) \<or> (28 \<le> n \<and> n \<le> 32))"

definition strip :: "string \<Rightarrow> string" where
  "strip s = rev (dropWhile isspace (rev (dropWhile isspace s)))"

definition startswith :: "string \<Rightarrow> string \<Rightarrow> bool" where
  "startswith s p = prefix p s"

definition endswith :: "string \<Rightarrow> string \<Rightarrow> bool" where
  "endswith s p = suffix p s"

definition contains :: "string \<Rightarrow> string \<Rightarrow> bool" where
  \<comment> \<open>\<open>contains s p\<close> is Python's \<open>p in s\<close>\<close>
  "contains s p = sublist p s"

fun join :: "string \<Rightarrow> string list \<Rightarrow> string" where
  "join sep [] = []"
| "join sep [x] = x"
| "join sep (x # y # ys) = x @ sep @ join sep (y # ys)"

function replace :: "string \<Rightarrow> string \<Rightarrow> string \<Rightarrow> string" where
  "replace old new [] = []"
| "replace old new (c # cs) =
     (if old \<noteq> [] \<and> prefix old (c # cs)
      then new @ replace old new (drop (length old) (c # cs))
      else c # replace old new cs)"
  by pat_completeness auto
termination
  by (relation "measure (\<lambda>(old, new, s). length s)") (auto simp: neq_Nil_conv)

text \<open>Decimal rendering of a length, as an f-string prints it.\<close>

definition digit_char :: "nat \<Rightarrow> char" where
  "digit_char d = char_of (48 + d)"

function str_of_nat :: "nat \<Rightarrow> string" where
  "str_of_nat n = (if n < 10 then [digit_char n] else str_of_nat (n div 10) @ [digit_char (n mod 10)])"
  by pat_completeness auto
termination
  by (relation "measure id") auto

declare str_of_nat.simps [simp del]

section \<open>Data model (core/models.py)\<close>

datatype Sender = SCAMMER | USER | AGENT

record Message =
  sender :: Sender
  msg_text :: string
  timestamp :: "int option"

record Metadata =
  channel :: "string option"
  language :: "string option"
  md_locale :: "string option"

record IncomingRequest =
  req_sessionId :: string
  req_message :: Message
  conversationHistory :: "Message list"
  metadata :: "Metadata option"

datatype Status = success | error

record AgentResponse =
  status :: Status
  reply :: string

datatype ScamType = BANK_FRAUD | UPI_FRAUD | PHISHING | FAKE_OFFER | OTP_HARVESTING | UNKNOWN

fun scam_type_value :: "ScamType \<Rightarrow> string" where
  "scam_type_value BANK_FRAUD = ''bank_fraud''"
| "scam_type_value UPI_FRAUD = ''upi_fraud''"
| "scam_type_value PHISHING = ''phishing''"
| "scam_type_value FAKE_OFFER = ''fake_offer''"
| "scam_type_value OTP_HARVESTING = ''otp_harvesting''"
| "scam_type_value UNKNOWN = ''unknown''"

text \<open>
  \<open>confidenceScore\<close> is a Python float; the model computes with exact rationals. The
  scores the classifier adds are multiples of \<open>0.05\<close>, and \<open>round(_, 2)\<close> is modelled
  by \<open>round2\<close> below.
\<close>

record ScamDetectionResult =
  scamDetected :: bool
  confidenceScore :: rat
  scamType :: ScamType
  indicators :: "string list"
  reasoning :: string

record ExtractedIntelligence =
  bankAccounts :: "string list"
  ifscCodes :: "string list"
  upiIds :: "string list"
  phishingLinks :: "string list"
  phoneNumbers :: "string list"
  suspiciousKeywords :: "string list"

definition empty_intelligence :: ExtractedIntelligence where
  "empty_intelligence =
     \<lparr>bankAccounts = [], ifscCodes = [], upiIds = [], phishingLinks = [],
      phoneNumbers = [], suspiciousKeywords = []\<rparr>"

definition has_intelligence :: "ExtractedIntelligence \<Rightarrow> bool" where
  "has_intelligence e =
     list_ex (\<lambda>l. l \<noteq> [])
       [bankAccounts e, ifscCodes e, upiIds e, phishingLinks e, phoneNumbers e]"

definition get_summary :: "ExtractedIntelligence \<Rightarrow> string" where
  "get_summary e =
     (let items0 = [];
          items1 = (if bankAccounts e \<noteq> []
                    then items0 @ [str_of_nat (length (bankAccounts e)) @ '' bank account(s)'']
                    else items0);
          items2 = (if upiIds e \<noteq> []
                    then items1 @ [str_of_nat (length (upiIds e)) @ '' UPI ID(s)'']
                    else items1);
          items3 = (if phishingLinks e \<noteq> []
                    then items2 @ [str_of_nat (length (phishingLinks e)) @ '' phishing link(s)'']
                    else items2);
          items4 = (if phoneNumbers e \<noteq> []
                    then items3 @ [str_of_nat (length (phoneNumbers e)) @ '' phone number(s)'']
                    else items3)
      in if items4 \<noteq> [] then join '', '' items4 else ''No actionable intelligence'')"

record EngagementMetrics =
  totalMessagesExchanged :: nat
  numberOfTurns :: nat
  engagementDurationSeconds :: rat
  scamDetectionConfidence :: rat

definition empty_metrics :: EngagementMetrics where
  "empty_metrics =
     \<lparr>totalMessagesExchanged = 0, numberOfTurns = 0, engagementDurationSeconds = 0,
      scamDetectionConfidence = 0\<rparr>"

record SessionState =
  sessionId :: string
  createdAt :: nat
  updatedAt :: nat
  messages :: "Message list"
  detectionResult :: "ScamDetectionResult option"
  extractedIntelligence :: ExtractedIntelligence
  engagementMetrics :: EngagementMetrics
  isActive :: bool
  callbackSent :: bool
  agentNotes :: string

definition new_session :: "string \<Rightarrow> nat \<Rightarrow> SessionState" where
  \<comment> \<open>\<open>SessionState(sessionId=session_id, messages=[])\<close>, created at clock reading \<open>now\<close>\<close>
  "new_session sid now =
     \<lparr>sessionId = sid, createdAt = now, updatedAt = now, messages = [],
      detectionResult = None, extractedIntelligence = empty_intelligence,
      engagementMetrics = empty_metrics, isActive = True, callbackSent = False,
      agentNotes = []\<rparr>"

record GUVICallbackPayload =
  cb_sessionId :: string
  cb_scamDetected :: bool
  cb_totalMessagesExchanged :: nat
  cb_extractedIntelligence :: ExtractedIntelligence
  cb_agentNotes :: string

section \<open>Configuration (core/config.py)\<close>

record Settings =
  SCAM_DETECTION_THRESHOLD :: rat
  MAX_CONVERSATION_TURNS :: int
  MIN_TURNS_BEFORE_CALLBACK :: int

definition default_settings :: Settings where
  "default_settings =
     \<lparr>SCAM_DETECTION_THRESHOLD = 6 / 10, MAX_CONVERSATION_TURNS = 15,
      MIN_TURNS_BEFORE_CALLBACK = 3\<rparr>"

record Persona =
  name :: string
  style :: string
  responses :: "string list"

definition SCAM_PATTERNS :: "(string \<times> string list) list" where
  "SCAM_PATTERNS =
    [(''urgency'',
      [''blocked'' @ bs @ ''s*(today|now|immediately)'',
       ''will'' @ bs @ ''s*be'' @ bs @ ''s*blocked'',
       ''urgent'',
       ''immediately'',
       ''right'' @ bs @ ''s*now'',
       ''hurry'',
       ''expires?'' @ bs @ ''s*(today|soon)'',
       ''last'' @ bs @ ''s*chance'',
       ''final'' @ bs @ ''s*notice'',
       ''account'' @ bs @ ''s*suspended'',
       ''verify'' @ bs @ ''s*(now|immediately)'']),
     (''bank_fraud'',
      [bs @ ''b(sbi|hdfc|icici|axis|pnb|bob|union'' @ bs @ ''s*bank)'' @ bs @ ''b'',
       ''bank'' @ bs @ ''s*account'',
       ''debit'' @ bs @ ''s*card'',
       ''credit'' @ bs @ ''s*card'',
       ''kyc'' @ bs @ ''s*(update|verification)'',
       ''account'' @ bs @ ''s*verification'',
       ''transaction'' @ bs @ ''s*failed'',
       ''suspicious'' @ bs @ ''s*activity'']),
     (''upi_fraud'',
      [bs @ ''bupi'' @ bs @ ''b'',
       bs @ ''b(paytm|phonepe|gpay|google'' @ bs @ ''s*pay|bhim)'' @ bs @ ''b'',
       ''qr'' @ bs @ ''s*code'',
       ''scan'' @ bs @ ''s*qr'',
       ''collect'' @ bs @ ''s*request'',
       ''request'' @ bs @ ''s*money'',
       ''send'' @ bs @ ''s*money'' @ bs @ ''s*to'',
       ''transfer'' @ bs @ ''s*to'',
       ''@(?:paytm|phonepe|ybl|oksbi|okhdfcbank|okicici|okaxis)'']),
     (''phishing'',
      [''click'' @ bs @ ''s*(here|link)'',
       ''tap'' @ bs @ ''s*here'',
       ''http[s]?://[^'' @ bs @ ''s]+(?:verify|secure|login|update|kyc)'',
       ''bit'' @ bs @ ''.ly|tinyurl|t'' @ bs @ ''.co|short'' @ bs @ ''.link'',
       ''verify'' @ bs @ ''s*(?:account|identity|details)'',
       ''update'' @ bs @ ''s*(?:kyc|details|information)'',
       ''login'' @ bs @ ''s*to'',
       ''enter'' @ bs @ ''s*(?:otp|pin|password)'']),
     (''fake_offers'',
      [''won'' @ bs @ ''s*(?:rs'' @ bs @ ''.?|'' @ [CHR 0xE2] @ [CHR 0x82] @ [CHR 0xB9] @ '')?'' @ bs @ ''s*['' @ bs @ ''d,]+'',
       ''congratulations!*'' @ bs @ ''s*you'' @ bs @ ''s*(?:have'' @ bs @ ''s*)?won'',
       ''lucky'' @ bs @ ''s*(?:draw|winner|prize)'',
       ''lottery'',
       ''cash'' @ bs @ ''s*(?:prize|back|reward)'',
       bs @ ''b(?:rs'' @ bs @ ''.?|'' @ [CHR 0xE2] @ [CHR 0x82] @ [CHR 0xB9] @ '')'' @ bs @ ''s*['' @ bs @ ''d,]+'' @ bs @ ''s*(?:lakhs?|crores?|000)'',
       ''gift'' @ bs @ ''s*(?:waiting|pending|ready)'',
       ''claim'' @ bs @ ''s*(?:your|now)'']),
     (''otp_pin_harvesting'',
      [bs @ ''botp'' @ bs @ ''b'',
       bs @ ''bpin'' @ bs @ ''b'',
       ''one[-'' @ bs @ ''s]?time[-'' @ bs @ ''s]?password'',
       ''verification'' @ bs @ ''s*code'',
       ''security'' @ bs @ ''s*code'',
       ''share'' @ bs @ ''s*(?:your|the)'' @ bs @ ''s*(?:otp|pin|code)'',
       ''send'' @ bs @ ''s*(?:me|us)'' @ bs @ ''s*(?:otp|pin|code)'',
       ''provide'' @ bs @ ''s*(?:otp|pin|code)'',
       ''enter'' @ bs @ ''s*(?:otp|pin|code)'',
       bs @ ''b'' @ bs @ ''d{4,6}'' @ bs @ ''b'']),
     (''suspicious_keywords'',
      [''processing'' @ bs @ ''s*fee'',
       ''advance'' @ bs @ ''s*payment'',
       ''gst'' @ bs @ ''s*(?:charges|fee)'',
       ''tax'' @ bs @ ''s*payment'',
       ''refund'' @ bs @ ''s*(?:pending|processing)'',
       ''insurance'' @ bs @ ''s*claim'',
       ''package'' @ bs @ ''s*delivery'',
       ''courier'',
       ''custom'' @ bs @ ''s*duty''])]"

definition bank_account_regex :: "string list" where
  "bank_account_regex =
    [bs @ ''b'' @ bs @ ''d{9,18}'' @ bs @ ''b'',
     ''(?:account|a/c)'' @ bs @ ''s*(?:number|no)?[:'' @ bs @ ''s]+('' @ bs @ ''d+)'',
     ''(?:account|a/c)[:'' @ bs @ ''s]+('' @ bs @ ''d{9,18})'']"

definition ifsc_code_regex :: "string list" where
  "ifsc_code_regex =
    [bs @ ''b[A-Z]{4}0[A-Z0-9]{6}'' @ bs @ ''b'',
     ''ifsc[:'' @ bs @ ''s]+([A-Z]{4}0[A-Z0-9]{6})'']"

definition upi_id_regex :: "string list" where
  "upi_id_regex =
    [bs @ ''b['' @ bs @ ''w.-]+@(?:paytm|phonepe|ybl|oksbi|okhdfcbank|okicici|okaxis|ibl|axl)'' @ bs @ ''b'',
     bs @ ''b['' @ bs @ ''w.-]+@['' @ bs @ ''w]+'' @ bs @ ''b'',
     ''upi'' @ bs @ ''s*(?:id)?[:'' @ bs @ ''s]+(['' @ bs @ ''w.-]+@['' @ bs @ ''w]+)'']"

definition phone_number_regex :: "string list" where
  "phone_number_regex =
    [bs @ ''+91[-'' @ bs @ ''s]?'' @ bs @ ''d{10}'',
     bs @ ''b'' @ bs @ ''d{10}'' @ bs @ ''b'',
     ''(?:mobile|phone|contact|call)[:'' @ bs @ ''s]+('' @ bs @ ''+?'' @ bs @ ''d['' @ bs @ ''d'' @ bs @ ''s-]{8,})'']"

definition phishing_link_regex :: "string list" where
  "phishing_link_regex =
    [''https?://[^'' @ bs @ ''s<>'' @ bs @ [CHR 0x22] @ ''{}|'' @ bs @ bs @ ''^`['' @ bs @ '']]+'',
     ''www'' @ bs @ ''.[^'' @ bs @ ''s<>'' @ bs @ [CHR 0x22] @ ''{}|'' @ bs @ bs @ ''^`['' @ bs @ '']]+'']"

definition persona_confused :: Persona where
  "persona_confused =
    \<lparr>name = ''Ramesh'', style = ''slightly confused, elderly, cooperative'',
     responses =
      [''Wait... I'm a bit confused. Could you explain that again?'',
       ''Sorry, I'm not very good with technology. What did you say?'',
       ''My eyes aren't what they used to be. Can you repeat that slowly?'',
       ''I'm worried about making a mistake. Can you guide me step by step?'',
       ''Let me write this down... could you say that again?'',
       ''I didn't understand. Can you explain in simple words?'',
       ''Is this safe? I've heard about scams...'',
       ''My son usually helps me with these things. Let me try to understand.'',
       ''I'm getting a bit worried. Is everything okay?'',
       ''Please be patient with me, I'm trying my best.'']\<rparr>"

definition persona_cooperative :: Persona where
  "persona_cooperative =
    \<lparr>name = ''Priya'', style = ''cooperative but cautious, asks questions'',
     responses =
      [''Okay, I want to help. What do I need to do?'',
       ''I can do that. Just to confirm - what was the ID again?'',
       ''I want to make sure I do this right. Can you repeat?'',
       ''Alright, I'm following. What's the next step?'',
       ''I understand. But why do you need this information?'',
       ''I'll help, but I want to be careful. Is this legitimate?'',
       ''Let me check... okay, I'm ready. What next?'',
       ''I want to do this correctly. Can you confirm the details?'']\<rparr>"

definition persona_skeptical :: Persona where
  "persona_skeptical =
    \<lparr>name = ''Vikram'', style = ''slightly suspicious, asks for proof'',
     responses =
      [''How do I know this is real? I've been scammed before.'',
       ''Can you prove you're from the bank?'',
       ''This seems suspicious. Why do you need this?'',
       ''I need to verify this. Can you give me a reference number?'',
       ''I'm not comfortable sharing this. Can I call the bank directly?'',
       ''Something doesn't feel right. Can you explain more?'',
       ''Let me think about this. Why is this urgent?'']\<rparr>"

definition persona_curious :: Persona where
  "persona_curious =
    \<lparr>name = ''Ananya'', style = ''curious, asks many questions'',
     responses =
      [''Interesting... tell me more about this.'',
       ''Why would my account be blocked? I didn't do anything wrong.'',
       ''How does this work exactly?'',
       ''What happens if I don't do this?'',
       ''Can you explain why this is necessary?'',
       ''I have so many questions. Is this normal?'',
       ''Wait, let me understand this properly first.'']\<rparr>"

definition PERSONAS :: "(string \<times> Persona) list" where
  "PERSONAS =
    [(''confused'', persona_confused),
     (''cooperative'', persona_cooperative),
     (''skeptical'', persona_skeptical),
     (''curious'', persona_curious)]"

definition EXTRACTION_QUESTIONS :: "(string \<times> string list) list" where
  "EXTRACTION_QUESTIONS =
    [(''upi_id'',
      [''What's the UPI ID I should send to? I want to make sure I get it right.'',
       ''Can you confirm the UPI ID? I don't want to send to the wrong person.'',
       ''Sorry, I got disconnected. What was the UPI ID again?'',
       ''Let me write this down. What's the exact UPI ID?'']),
     (''bank_account'',
      [''Which account should I transfer to? Can you give me the details?'',
       ''I can do a bank transfer. What are the account details?'',
       ''My bank needs the account number and IFSC. Can you provide those?'',
       ''I prefer bank transfer. What's the account information?'']),
     (''phone_number'',
      [''Can I call you to confirm? What's your number?'',
       ''My phone is having issues. Can you give me your number again?'',
       ''I'd like to save your number. What is it?'']),
     (''phishing_link'',
      [''The link isn't working. Can you send it again?'',
       ''I'm having trouble opening the link. Could you resend?'',
       ''My browser says the link is broken. Can you check and resend?''])]"

section \<open>Library functions the code calls\<close>

text \<open>
  The regular-expression engine (\<open>re\<close>), \<open>urllib.parse.urlparse\<close> and the iteration
  order of a Python \<open>set\<close> are not part of the repository. They are parameters of the
  model, so every theorem below holds for any behaviour of these functions:
  \<^item> \<open>re_search lib p t\<close>: \<open>re.compile(p, re.IGNORECASE).search(t)\<close> finds a match;
  \<^item> \<open>re_finditer lib p t\<close>: the matches \<open>re.compile(p, re.IGNORECASE).finditer(t)\<close>
    yields, in order, each with \<open>group(0)\<close> and the tuple \<open>groups()\<close>;
  \<^item> \<open>urlparse_netloc lib u\<close>: \<open>urlparse(u).netloc\<close>, or \<open>None\<close> when \<open>urlparse\<close> raises;
  \<^item> \<open>list_of_set lib xs\<close>: \<open>list(set(xs))\<close>.
\<close>

record re_match =
  group0 :: string
  groups :: "string list"

record Library =
  re_search :: "string \<Rightarrow> string \<Rightarrow> bool"
  re_finditer :: "string \<Rightarrow> string \<Rightarrow> re_match list"
  urlparse_netloc :: "string \<Rightarrow> string option"
  list_of_set :: "string list \<Rightarrow> string list"

text \<open>A Python \<open>dict\<close> with insertion order is an association list.\<close>

definition has_key :: "('k \<times> 'v) list \<Rightarrow> 'k \<Rightarrow> bool" where
  "has_key d k = (k \<in> set (map fst d))"

fun dict_set :: "('k \<times> 'v) list \<Rightarrow> 'k \<Rightarrow> 'v \<Rightarrow> ('k \<times> 'v) list" where
  "dict_set [] k v = [(k, v)]"
| "dict_set ((k', v') # d) k v = (if k' = k then (k, v) # d else (k', v') # dict_set d k v)"

definition dict_get :: "('k \<times> 'v) list \<Rightarrow> 'k \<Rightarrow> 'v \<Rightarrow> 'v" where
  "dict_get d k dflt = (case map_of d k of None \<Rightarrow> dflt | Some v \<Rightarrow> v)"

section \<open>Scam detection (core/detector.py)\<close>

record ScamDetector =
  compiled_patterns :: "(string \<times> string list) list"

definition compile_patterns :: "(string \<times> string list) list" where
  "compile_patterns = fold (\<lambda>(category, patterns) compiled. dict_set compiled category patterns) SCAM_PATTERNS []"

definition ScamDetector_init :: ScamDetector where
  "ScamDetector_init = \<lparr>compiled_patterns = compile_patterns\<rparr>"

definition round_half_even :: "rat \<Rightarrow> int" where
  "round_half_even x =
     (let f = \<lfloor>x\<rfloor>; d = x - of_int f
      in if d < 1 / 2 then f else if 1 / 2 < d then f + 1 else if even f then f else f + 1)"

definition round2 :: "rat \<Rightarrow> rat" where
  \<comment> \<open>\<open>round(x, 2)\<close>\<close>
  "round2 x = of_int (round_half_even (x * 100)) / 100"

definition critical_categories :: "string list" where
  "critical_categories = [''urgency'', ''otp_pin_harvesting'', ''phishing'']"

definition calculate_confidence :: "(string \<times> string list) list \<Rightarrow> string \<Rightarrow> rat" where
  "calculate_confidence category_matches all_text =
     (let base_score = 0;
          num_categories = length category_matches;
          base_score = base_score + min (of_nat num_categories * (15 / 100)) (45 / 100);
          base_score =
            fold (\<lambda>(category, matches) b.
                    let b = (if 2 \<le> length matches then b + 1 / 10 else b)
                    in (if 3 \<le> length matches then b + 1 / 10 else b))
              category_matches base_score;
          base_score =
            fold (\<lambda>crit b. if has_key category_matches crit then b + 15 / 100 else b)
              critical_categories base_score;
          base_score =
            (if has_key category_matches ''upi_fraud'' then base_score + 1 / 10 else base_score);
          base_score =
            (if has_key category_matches ''bank_fraud'' then base_score + 1 / 10 else base_score);
          base_score =
            (if has_key category_matches ''urgency'' \<and>
                (has_key category_matches ''bank_fraud'' \<or> has_key category_matches ''upi_fraud'')
             then base_score + 15 / 100 else base_score)
      in min base_score (99 / 100))"

definition priority :: "(string \<times> ScamType) list" where
  "priority =
     [(''upi_fraud'', UPI_FRAUD),
      (''bank_fraud'', BANK_FRAUD),
      (''phishing'', PHISHING),
      (''fake_offers'', FAKE_OFFER),
      (''otp_pin_harvesting'', OTP_HARVESTING)]"

fun first_in_priority :: "(string \<times> string list) list \<Rightarrow> (string \<times> ScamType) list \<Rightarrow> ScamType option" where
  "first_in_priority category_matches [] = None"
| "first_in_priority category_matches ((category, scam_type) # rest) =
     (if has_key category_matches category then Some scam_type
      else first_in_priority category_matches rest)"

definition determine_scam_type :: "(string \<times> string list) list \<Rightarrow> ScamType" where
  "determine_scam_type category_matches =
     (case first_in_priority category_matches priority of
        Some scam_type \<Rightarrow> scam_type
      | None \<Rightarrow>
          if has_key category_matches ''urgency'' \<or> has_key category_matches ''suspicious_keywords''
          then PHISHING else UNKNOWN)"

definition generate_reasoning :: "(string \<times> string list) list \<Rightarrow> ScamType \<Rightarrow> string" where
  "generate_reasoning category_matches scam_type =
     (let parts =
            (if has_key category_matches ''urgency'' then [''Creates false urgency''] else []) @
            (if has_key category_matches ''bank_fraud'' then [''Impersonates bank''] else []) @
            (if has_key category_matches ''upi_fraud'' then [''Requests UPI transfer''] else []) @
            (if has_key category_matches ''phishing'' then [''Contains suspicious links''] else []) @
            (if has_key category_matches ''fake_offers'' then [''Promises fake rewards''] else []) @
            (if has_key category_matches ''otp_pin_harvesting'' then [''Requests sensitive codes''] else []) @
            (if has_key category_matches ''suspicious_keywords'' then [''Uses suspicious terminology''] else [])
      in if parts \<noteq> []
         then ''Detected '' @ scam_type_value scam_type @ '': '' @ join ''; '' parts
         else ''Low confidence detection'')"

definition scan_category ::
  "Library \<Rightarrow> string \<Rightarrow> string \<times> string list \<Rightarrow>
   string list \<times> (string \<times> string list) list \<Rightarrow> string list \<times> (string \<times> string list) list" where
  "scan_category lib all_text = (\<lambda>(category, patterns) (indicators_found, category_matches).
     let matches = filter (\<lambda>pattern. re_search lib pattern all_text) patterns
     in if matches \<noteq> []
        then (indicators_found @ take 2 matches, dict_set category_matches category matches)
        else (indicators_found, category_matches))"

definition negative_result :: ScamDetectionResult where
  "negative_result =
     \<lparr>scamDetected = False, confidenceScore = 1 / 10, scamType = UNKNOWN, indicators = [],
      reasoning = ''No scam indicators detected''\<rparr>"

definition detect :: "Library \<Rightarrow> Settings \<Rightarrow> ScamDetector \<Rightarrow> Message list \<Rightarrow> ScamDetectionResult" where
  "detect lib cfg self msgs =
     (let all_text = lower (join '' '' (map msg_text msgs));
          (indicators_found, category_matches) =
             fold (scan_category lib all_text) (compiled_patterns self) ([], [])
      in if category_matches = [] then negative_result
         else
           let confidence = calculate_confidence category_matches all_text;
               scam_type = determine_scam_type category_matches;
               reasoning = generate_reasoning category_matches scam_type;
               scam_detected = (SCAM_DETECTION_THRESHOLD cfg \<le> confidence)
           in \<lparr>scamDetected = scam_detected, confidenceScore = round2 confidence,
               scamType = scam_type,
               indicators = take 10 (list_of_set lib indicators_found),
               reasoning = reasoning\<rparr>)"

definition category_matches_of :: "Library \<Rightarrow> ScamDetector \<Rightarrow> Message list \<Rightarrow> (string \<times> string list) list" where
  \<comment> \<open>the dictionary \<open>category_matches\<close> that \<open>detect\<close> builds for a transcript\<close>
  "category_matches_of lib self msgs =
     snd (fold (scan_category lib (lower (join '' '' (map msg_text msgs)))) (compiled_patterns self) ([], []))"


text \<open>
  The score in the words of the specification: \<open>0.15\<close> per matched category up to
  \<open>0.45\<close>; per category \<open>0.1\<close> for two matched rules and another \<open>0.1\<close> for three;
  \<open>0.15\<close> for each critical category; \<open>0.1\<close> for the payment-transfer category and
  \<open>0.1\<close> for the bank category; \<open>0.15\<close> when urgency comes with either of them.
\<close>

definition additive_score :: "(string \<times> string list) list \<Rightarrow> rat" where
  "additive_score cm =
     min (of_nat (length cm) * (15 / 100)) (45 / 100)
     + (\<Sum>(category, matches) \<leftarrow> cm.
          (if 2 \<le> length matches then 1 / 10 else 0) + (if 3 \<le> length matches then 1 / 10 else 0))
     + (\<Sum>crit \<leftarrow> critical_categories. if has_key cm crit then 15 / 100 else 0)
     + (if has_key cm ''upi_fraud'' then 1 / 10 else 0)
     + (if has_key cm ''bank_fraud'' then 1 / 10 else 0)
     + (if has_key cm ''urgency'' \<and> (has_key cm ''bank_fraud'' \<or> has_key cm ''upi_fraud'')
        then 15 / 100 else 0)"

definition cents :: "rat \<Rightarrow> bool" where
  \<comment> \<open>a whole number of hundredths\<close>
  "cents x = (x * 100 \<in> \<int>)"

section \<open>Intelligence extraction (core/extractor.py)\<close>

definition LEGITIMATE_DOMAINS :: "string list" where
  "LEGITIMATE_DOMAINS =
     [''google.com'', ''gmail.com'', ''yahoo.com'', ''hotmail.com'',
      ''facebook.com'', ''instagram.com'', ''twitter.com'', ''x.com'',
      ''youtube.com'', ''linkedin.com'',
      ''amazon.in'', ''amazon.com'', ''flipkart.com'',
      ''paytm.com'', ''phonepe.com'', ''google.com/pay'',
      ''sbi.co.in'', ''onlinesbi.sbi'', ''hdfcbank.com'', ''icicibank.com'',
      ''axisbank.com'', ''pnbindia.in'', ''bankofbaroda.in'',
      ''rbi.org.in'', ''npci.org.in'',
      ''whatsapp.com'', ''telegram.org'']"

definition SUSPICIOUS_TLDS :: "string list" where
  "SUSPICIOUS_TLDS = [''.tk'', ''.ml'', ''.ga'', ''.cf'', ''.top'', ''.xyz'', ''.club'', ''.online'', ''.site'']"

definition EXTRACTION_REGEX :: "(string \<times> string list) list" where
  "EXTRACTION_REGEX =
     [(''bank_account'', bank_account_regex),
      (''ifsc_code'', ifsc_code_regex),
      (''upi_id'', upi_id_regex),
      (''phone_number'', phone_number_regex),
      (''phishing_link'', phishing_link_regex)]"

definition validate_bank_account :: "string \<Rightarrow> bool" where
  "validate_bank_account x = (let n = length (filter isdigit x) in 9 \<le> n \<and> n \<le> 18)"

definition validate_ifsc_code :: "string \<Rightarrow> bool" where
  "validate_ifsc_code x = (length x = 11 \<and> x ! 4 = CHR ''0'')"

definition validate_upi_id :: "string \<Rightarrow> bool" where
  "validate_upi_id x = (CHR ''@'' \<in> set x \<and> 3 \<le> length (takeWhile (\<lambda>c. c \<noteq> CHR ''@'') x))"

record IntelligenceExtractor =
  ex_compiled_patterns :: "(string \<times> string list) list"
  scam_keywords :: "string list"

definition pattern_keyword :: "string \<Rightarrow> string" where
  "pattern_keyword pattern =
     replace ''*'' [] (replace ''?'' [] (replace (bs @ ''s*'') '' '' (replace (bs @ ''b'') [] pattern)))"

definition load_scam_keywords :: "string list" where
  "load_scam_keywords =
     concat (map (\<lambda>(category, patterns).
                    concat (map (\<lambda>pattern. let keyword = pattern_keyword pattern
                                            in if 3 < length keyword then [keyword] else [])
                                (take 3 patterns)))
                 SCAM_PATTERNS)"

definition IntelligenceExtractor_init :: IntelligenceExtractor where
  "IntelligenceExtractor_init =
     \<lparr>ex_compiled_patterns =
        fold (\<lambda>(data_type, regex) compiled. dict_set compiled data_type regex) EXTRACTION_REGEX [],
      scam_keywords = load_scam_keywords\<rparr>"

definition match_value :: "re_match \<Rightarrow> string" where
  \<comment> \<open>\<open>match.group(1) if match.groups() else match.group(0)\<close>\<close>
  "match_value m = (case groups m of [] \<Rightarrow> group0 m | g # _ \<Rightarrow> g)"

definition all_matches :: "Library \<Rightarrow> string list \<Rightarrow> string \<Rightarrow> re_match list" where
  \<comment> \<open>the matches the nested loops \<open>for pattern ...: for match in pattern.finditer(text)\<close> visit\<close>
  "all_matches lib patterns txt = concat (map (\<lambda>pattern. re_finditer lib pattern txt) patterns)"

definition append_new :: "string list \<Rightarrow> string \<Rightarrow> string list" where
  \<comment> \<open>\<open>if x not in xs: xs.append(x)\<close>\<close>
  "append_new xs x = (if x \<in> set xs then xs else xs @ [x])"

definition extract_bank_accounts :: "Library \<Rightarrow> IntelligenceExtractor \<Rightarrow> string \<Rightarrow> string list" where
  "extract_bank_accounts lib self txt =
     take 5 (fold (\<lambda>m accounts.
                     let account = filter isdigit (match_value m)
                     in if validate_bank_account account then append_new accounts account
                        else accounts)
                  (all_matches lib (dict_get (ex_compiled_patterns self) ''bank_account'' []) txt) [])"

definition extract_ifsc_codes :: "Library \<Rightarrow> IntelligenceExtractor \<Rightarrow> string \<Rightarrow> string list" where
  "extract_ifsc_codes lib self txt =
     take 5 (fold (\<lambda>m codes.
                     let code = strip (upper (match_value m))
                     in if validate_ifsc_code code then append_new codes code else codes)
                  (all_matches lib (dict_get (ex_compiled_patterns self) ''ifsc_code'' []) txt) [])"

definition extract_upi_ids :: "Library \<Rightarrow> IntelligenceExtractor \<Rightarrow> string \<Rightarrow> string list" where
  "extract_upi_ids lib self txt =
     take 5 (fold (\<lambda>m upis.
                     let upi = strip (lower (match_value m))
                     in if CHR ''@'' \<in> set upi \<and>
                           \<not> (endswith upi ''@gmail.com'' \<or> endswith upi ''@yahoo.com'' \<or>
                              endswith upi ''@hotmail.com'')
                        then (if validate_upi_id upi then append_new upis upi else upis)
                        else upis)
                  (all_matches lib (dict_get (ex_compiled_patterns self) ''upi_id'' []) txt) [])"

definition parsed_domain :: "Library \<Rightarrow> string \<Rightarrow> string option" where
  \<comment> \<open>the host \<open>_is_suspicious_url\<close> compares; \<open>None\<close> when \<open>urlparse\<close> raises\<close>
  "parsed_domain lib url =
     (let url = (if startswith url ''www.'' then ''http://'' @ url else url)
      in case urlparse_netloc lib url of
           None \<Rightarrow> None
         | Some netloc \<Rightarrow>
             let domain = lower netloc
             in Some (if startswith domain ''www.'' then drop 4 domain else domain))"

definition is_legitimate :: "string \<Rightarrow> bool" where
  "is_legitimate domain =
     list_ex (\<lambda>legit. domain = legit \<or> endswith domain (''.'' @ legit)) LEGITIMATE_DOMAINS"

definition has_suspicious_tld :: "string \<Rightarrow> bool" where
  "has_suspicious_tld domain = list_ex (\<lambda>tld. endswith domain tld) SUSPICIOUS_TLDS"

definition is_typosquat :: "string \<Rightarrow> bool" where
  "is_typosquat domain =
     list_ex (\<lambda>legit. let legit_name = takeWhile (\<lambda>c. c \<noteq> CHR ''.'') legit
                      in contains domain legit_name \<and> domain \<noteq> legit)
       LEGITIMATE_DOMAINS"

definition has_suspicious_keyword :: "string \<Rightarrow> bool" where
  "has_suspicious_keyword domain =
     list_ex (\<lambda>kw. contains domain kw)
       [''verify'', ''secure'', ''login'', ''update'', ''kyc'', ''confirm'', ''validate'']"

definition is_shortener :: "string \<Rightarrow> bool" where
  "is_shortener domain =
     list_ex (\<lambda>short. contains domain short)
       [''bit.ly'', ''tinyurl'', ''t.co'', ''short.link'', ''goo.gl'']"

definition is_suspicious_url :: "Library \<Rightarrow> string \<Rightarrow> bool" where
  "is_suspicious_url lib url =
     (case parsed_domain lib url of
        None \<Rightarrow> True
      | Some domain \<Rightarrow>
          if is_legitimate domain then False
          else if has_suspicious_tld domain then True
          else if is_typosquat domain then True
          else if has_suspicious_keyword domain then True
          else if is_shortener domain then True
          else True)"

definition extract_phishing_links :: "Library \<Rightarrow> IntelligenceExtractor \<Rightarrow> string \<Rightarrow> string list" where
  "extract_phishing_links lib self txt =
     take 10 (fold (\<lambda>m links.
                      let url = strip (group0 m)
                      in if \<not> (startswith url ''http://'' \<or> startswith url ''https://'' \<or>
                               startswith url ''www.'')
                         then links
                         else if is_suspicious_url lib url then append_new links url else links)
                   (all_matches lib (dict_get (ex_compiled_patterns self) ''phishing_link'' []) txt) [])"

definition normalize_phone :: "string \<Rightarrow> string option" where
  \<comment> \<open>the body of the loop of \<open>_extract_phone_numbers\<close>; \<open>None\<close> is its \<open>continue\<close>\<close>
  "normalize_phone number =
     (let digits = filter isdigit number
      in if length digits = 10 then Some (''+91'' @ digits)
         else if length digits = 12 \<and> startswith digits ''91'' then Some (''+'' @ digits)
         else if 10 < length digits then Some (''+'' @ digits)
         else None)"

definition extract_phone_numbers :: "Library \<Rightarrow> IntelligenceExtractor \<Rightarrow> string \<Rightarrow> string list" where
  "extract_phone_numbers lib self txt =
     take 5 (fold (\<lambda>m numbers.
                     case normalize_phone (match_value m) of
                       None \<Rightarrow> numbers
                     | Some normalized \<Rightarrow> append_new numbers normalized)
                  (all_matches lib (dict_get (ex_compiled_patterns self) ''phone_number'' []) txt) [])"

definition urgent_phrases :: "string list" where
  "urgent_phrases =
     [''account blocked'', ''verify now'', ''urgent'', ''immediately'',
      ''hurry up'', ''last chance'', ''expires today'', ''final notice'',
      ''suspended'', ''limited time'', ''act now'']"

definition extract_suspicious_keywords :: "Library \<Rightarrow> IntelligenceExtractor \<Rightarrow> string \<Rightarrow> string list" where
  "extract_suspicious_keywords lib self txt =
     (let text_lower = lower txt;
          found = filter (\<lambda>keyword. contains text_lower (lower keyword)) (scam_keywords self);
          found = fold (\<lambda>phrase found.
                          if contains text_lower phrase \<and> phrase \<notin> set found
                          then found @ [phrase] else found)
                       urgent_phrases found
      in take 15 (list_of_set lib found))"

definition extract_intelligence :: "Library \<Rightarrow> IntelligenceExtractor \<Rightarrow> Message list \<Rightarrow> ExtractedIntelligence" where
  "extract_intelligence lib self msgs =
     (let scammer_text = join '' '' (map msg_text (filter (\<lambda>m. sender m = SCAMMER) msgs))
      in \<lparr>bankAccounts = extract_bank_accounts lib self scammer_text,
          ifscCodes = extract_ifsc_codes lib self scammer_text,
          upiIds = extract_upi_ids lib self scammer_text,
          phishingLinks = extract_phishing_links lib self scammer_text,
          phoneNumbers = extract_phone_numbers lib self scammer_text,
          suspiciousKeywords = extract_suspicious_keywords lib self scammer_text\<rparr>)"


section \<open>The conversational agent (core/agent.py)\<close>

text \<open>
  \<open>random.choice(xs)\<close> takes its random number as an argument. Every sequence the code
  chooses from is a non-empty literal of the configuration.
\<close>

definition choice :: "nat \<Rightarrow> 'a list \<Rightarrow> 'a" where
  "choice rnd xs = xs ! (rnd mod length xs)"

text \<open>
  The two dictionaries of \<open>ConversationMemory\<close> are created with the keys \<open>"upi"\<close>,
  \<open>"bank"\<close>, \<open>"phone"\<close>, \<open>"link"\<close> and no key is ever added or removed, so they are
  total functions on these four keys.
\<close>

datatype Field = Upi | Bank | Phone | Link

record ConversationMemory =
  scammer_claims :: "string list"
  extracted_so_far :: "Field \<Rightarrow> bool"
  extraction_attempts :: "Field \<Rightarrow> nat"
  last_topics :: "string list"

definition ConversationMemory_init :: ConversationMemory where
  "ConversationMemory_init =
     \<lparr>scammer_claims = [], extracted_so_far = (\<lambda>_. False), extraction_attempts = (\<lambda>_. 0),
      last_topics = []\<rparr>"

definition record_extraction_attempt :: "ConversationMemory \<Rightarrow> Field \<Rightarrow> ConversationMemory" where
  "record_extraction_attempt mem data_type =
     mem\<lparr>extraction_attempts := (extraction_attempts mem)(data_type := extraction_attempts mem data_type + 1)\<rparr>"

definition mark_extracted :: "ConversationMemory \<Rightarrow> Field \<Rightarrow> ConversationMemory" where
  "mark_extracted mem data_type =
     mem\<lparr>extracted_so_far := (extracted_so_far mem)(data_type := True)\<rparr>"

record AutonomousAgent =
  ag_session_id :: string
  scam_type :: ScamType
  persona :: Persona
  memory :: ConversationMemory
  turn_count :: nat
  start_time :: nat

definition select_persona :: "ScamType \<Rightarrow> nat \<Rightarrow> Persona" where
  "select_persona t rnd =
     (if t = BANK_FRAUD then persona_skeptical
      else if t = UPI_FRAUD then persona_confused
      else if t = FAKE_OFFER then persona_curious
      else choice rnd (map snd PERSONAS))"

definition create_agent :: "string \<Rightarrow> ScamType \<Rightarrow> nat \<Rightarrow> nat \<Rightarrow> AutonomousAgent" where
  \<comment> \<open>\<open>AutonomousAgent(session_id, scam_type)\<close> with the random number and the clock reading it uses\<close>
  "create_agent sid t rnd now =
     \<lparr>ag_session_id = sid, scam_type = t, persona = select_persona t rnd,
      memory = ConversationMemory_init, turn_count = 0, start_time = now\<rparr>"

datatype Strategy =
    extract_upi | extract_bank | extract_phone | extract_link
  | express_concern | express_confusion | ask_clarification | show_cooperation

definition determine_strategy :: "AutonomousAgent \<Rightarrow> string \<Rightarrow> ExtractedIntelligence \<Rightarrow> Strategy" where
  "determine_strategy self scammer_msg extracted =
     (let msg_lower = lower scammer_msg
      in if (contains msg_lower ''upi'' \<or> contains msg_lower ''paytm'' \<or> contains msg_lower ''phonepe'') \<and>
            upiIds extracted = [] \<and> extraction_attempts (memory self) Upi < 2
         then extract_upi
         else if (contains msg_lower ''bank'' \<or> contains msg_lower ''account'' \<or> contains msg_lower ''transfer'') \<and>
            bankAccounts extracted = [] \<and> extraction_attempts (memory self) Bank < 2
         then extract_bank
         else if (contains msg_lower ''call'' \<or> contains msg_lower ''phone'' \<or> contains msg_lower ''contact'') \<and>
            phoneNumbers extracted = [] \<and> extraction_attempts (memory self) Phone < 2
         then extract_phone
         else if (contains msg_lower ''click'' \<or> contains msg_lower ''link'' \<or> contains msg_lower ''website'') \<and>
            phishingLinks extracted = [] \<and> extraction_attempts (memory self) Link < 2
         then extract_link
         else if list_ex (\<lambda>word. contains msg_lower word)
                   [''hurry'', ''quick'', ''now'', ''urgent'', ''immediately'']
         then express_concern
         else if list_ex (\<lambda>word. contains msg_lower word) [''send'', ''share'', ''provide'', ''give'']
         then express_confusion
         else if turn_count self \<le> 2 then ask_clarification
         else show_cooperation)"

definition generate_extraction_question :: "AutonomousAgent \<Rightarrow> string \<Rightarrow> nat \<Rightarrow> string" where
  "generate_extraction_question self data_type rnd =
     (let questions = dict_get EXTRACTION_QUESTIONS data_type [''Can you tell me more?''];
          question = choice rnd questions
      in if name (persona self) = ''Ramesh'' then question @ '' I want to make sure I do it correctly.''
         else if name (persona self) = ''Priya'' then question @ '' I want to help.''
         else if name (persona self) = ''Vikram'' then question @ '' I need to verify this first.''
         else question)"

definition confusion_responses :: "string list" where
  "confusion_responses =
     [''I'm a bit confused. Could you explain that again more simply?'',
      ''Sorry, I didn't understand. Can you repeat that?'',
      ''This is confusing for me. What exactly do you need?'',
      ''I'm not sure I follow. Can you break it down?'',
      ''Wait... I'm lost. What are you asking for?'']"

definition clarification_responses :: "string list" where
  "clarification_responses =
     [''Why do you need this information?'',
      ''Is this really from my bank?'',
      ''How do I know this is legitimate?'',
      ''Can you tell me more about why this is urgent?'',
      ''What will happen if I don't do this?'']"

definition cooperative_responses :: "string list" where
  "cooperative_responses =
     [''Okay, I'm listening. What should I do next?'',
      ''I understand. Please guide me through this.'',
      ''Alright, I want to do this right. What's the next step?'',
      ''I'm ready. What do I need to do?'',
      ''Okay, I'm following along. Please continue.'']"

definition concern_responses :: "string list" where
  "concern_responses =
     [''This feels rushed. Can we take this slowly?'',
      ''I'm getting worried. Is everything okay?'',
      ''Why is this so urgent? Can you explain?'',
      ''I need to think about this. Is there a deadline?'',
      ''I'm concerned. Can I verify this with my bank first?'']"

definition get_random_response :: "AutonomousAgent \<Rightarrow> nat \<Rightarrow> string" where
  "get_random_response self rnd = choice rnd (responses (persona self))"

definition last_scammer_message :: "Message list \<Rightarrow> string option" where
  "last_scammer_message msgs =
     (case filter (\<lambda>m. sender m = SCAMMER) (rev msgs) of
        [] \<Rightarrow> None
      | m # _ \<Rightarrow> Some (lower (msg_text m)))"

definition update_memory :: "ConversationMemory \<Rightarrow> ExtractedIntelligence \<Rightarrow> ConversationMemory" where
  "update_memory mem extracted =
     (let mem = (if upiIds extracted \<noteq> [] then mark_extracted mem Upi else mem);
          mem = (if bankAccounts extracted \<noteq> [] then mark_extracted mem Bank else mem);
          mem = (if phoneNumbers extracted \<noteq> [] then mark_extracted mem Phone else mem);
          mem = (if phishingLinks extracted \<noteq> [] then mark_extracted mem Link else mem)
      in mem)"

definition generate_response ::
  "AutonomousAgent \<Rightarrow> Message list \<Rightarrow> ExtractedIntelligence \<Rightarrow> nat \<Rightarrow> string \<times> AutonomousAgent" where
  "generate_response self msgs extracted rnd =
     (let self = self\<lparr>turn_count := turn_count self + 1\<rparr>
      in case last_scammer_message msgs of
           None \<Rightarrow> (get_random_response self rnd, self)
         | Some last_scammer_msg \<Rightarrow>
             if last_scammer_msg = [] then (get_random_response self rnd, self)
             else
               let self = self\<lparr>memory := update_memory (memory self) extracted\<rparr>;
                   strategy = determine_strategy self last_scammer_msg extracted
               in if strategy = extract_upi \<and> \<not> extracted_so_far (memory self) Upi
                  then (generate_extraction_question self ''upi_id'' rnd,
                        self\<lparr>memory := record_extraction_attempt (memory self) Upi\<rparr>)
                  else if strategy = extract_bank \<and> \<not> extracted_so_far (memory self) Bank
                  then (generate_extraction_question self ''bank_account'' rnd,
                        self\<lparr>memory := record_extraction_attempt (memory self) Bank\<rparr>)
                  else if strategy = extract_phone \<and> \<not> extracted_so_far (memory self) Phone
                  then (generate_extraction_question self ''phone_number'' rnd,
                        self\<lparr>memory := record_extraction_attempt (memory self) Phone\<rparr>)
                  else if strategy = extract_link \<and> \<not> extracted_so_far (memory self) Link
                  then (generate_extraction_question self ''phishing_link'' rnd,
                        self\<lparr>memory := record_extraction_attempt (memory self) Link\<rparr>)
                  else if strategy = express_confusion then (choice rnd confusion_responses, self)
                  else if strategy = ask_clarification then (choice rnd clarification_responses, self)
                  else if strategy = show_cooperation then (choice rnd cooperative_responses, self)
                  else if strategy = express_concern then (choice rnd concern_responses, self)
                  else (get_random_response self rnd, self))"

text \<open>
  The four extraction targets with the list, the strategy and the question pool that
  belong to each, and the replies of an agent over a sequence of calls.
\<close>

fun field_values :: "Field \<Rightarrow> ExtractedIntelligence \<Rightarrow> string list" where
  "field_values Upi extracted = upiIds extracted"
| "field_values Bank extracted = bankAccounts extracted"
| "field_values Phone extracted = phoneNumbers extracted"
| "field_values Link extracted = phishingLinks extracted"

fun field_strategy :: "Field \<Rightarrow> Strategy" where
  "field_strategy Upi = extract_upi"
| "field_strategy Bank = extract_bank"
| "field_strategy Phone = extract_phone"
| "field_strategy Link = extract_link"

fun field_data_type :: "Field \<Rightarrow> string" where
  "field_data_type Upi = ''upi_id''"
| "field_data_type Bank = ''bank_account''"
| "field_data_type Phone = ''phone_number''"
| "field_data_type Link = ''phishing_link''"

fun respond_all ::
  "AutonomousAgent \<Rightarrow> (Message list \<times> ExtractedIntelligence \<times> nat) list \<Rightarrow>
   (string \<times> AutonomousAgent) list" where
  "respond_all self [] = []"
| "respond_all self ((msgs, extracted, rnd) # rest) =
     (let (r, self') = generate_response self msgs extracted rnd
      in (r, self') # respond_all self' rest)"

text \<open>
  The two kinds of call: the agent asks the extraction question of a field (and counts
  the attempt), or it answers from a stalling pool or from the persona's own responses
  (and counts nothing).
\<close>

definition asks :: "AutonomousAgent \<Rightarrow> ExtractedIntelligence \<Rightarrow> nat \<Rightarrow> string \<Rightarrow> AutonomousAgent \<Rightarrow> Field \<Rightarrow> bool" where
  "asks self extracted rnd r self' g =
     (extraction_attempts (memory self) g < 2 \<and> field_values g extracted = [] \<and>
      r = generate_extraction_question self (field_data_type g) rnd \<and>
      extraction_attempts (memory self') =
        (extraction_attempts (memory self))(g := extraction_attempts (memory self) g + 1))"

definition stalls :: "AutonomousAgent \<Rightarrow> nat \<Rightarrow> string \<Rightarrow> AutonomousAgent \<Rightarrow> bool" where
  "stalls self rnd r self' =
     ((r \<in> set (confusion_responses @ clarification_responses @ cooperative_responses @ concern_responses) \<or>
       r = get_random_response self rnd) \<and>
      extraction_attempts (memory self') = extraction_attempts (memory self))"

definition should_continue :: "Settings \<Rightarrow> AutonomousAgent \<Rightarrow> bool" where
  "should_continue cfg self = (\<not> MAX_CONVERSATION_TURNS cfg \<le> int (turn_count self))"

text \<open>
  \<open>str(xs)\<close> of a list of strings is rendered with single quotes around each item;
  Python's escaping of quotes, backslashes and unprintable characters inside an item is
  left out.
\<close>

definition str_of_list :: "string list \<Rightarrow> string" where
  "str_of_list xs = ''['' @ join '', '' (map (\<lambda>s. [CHR 0x27] @ s @ [CHR 0x27]) xs) @ '']''"

definition generate_agent_notes :: "AutonomousAgent \<Rightarrow> ExtractedIntelligence \<Rightarrow> string" where
  "generate_agent_notes self extracted =
     (let notes_parts = [''Scammer attempted '' @ scam_type_value (scam_type self) @ ''.''];
          kws = lower (str_of_list (suspiciousKeywords extracted));
          tactics =
            (if contains kws ''urgent'' \<or> contains kws ''immediately'' then [''urgency tactics''] else []) @
            (if phishingLinks extracted \<noteq> [] then [''phishing links''] else []) @
            (if upiIds extracted \<noteq> [] then [''UPI fraud''] else []) @
            (if bankAccounts extracted \<noteq> [] then [''bank account fraud''] else []);
          notes_parts =
            (if tactics \<noteq> [] then notes_parts @ [''Used '' @ join '' and '' tactics @ ''.'']
             else notes_parts);
          intel_summary = get_summary extracted;
          notes_parts =
            (if intel_summary \<noteq> ''No actionable intelligence''
             then notes_parts @ [''Extracted: '' @ intel_summary @ ''.''] else notes_parts);
          notes_parts = notes_parts @ [''Engaged for '' @ str_of_nat (turn_count self) @ '' turns.'']
      in join '' '' notes_parts)"

section \<open>Session storage (core/database.py)\<close>

text \<open>
  The table \<open>sessions\<close> is a map from the session id to the stored row; the JSON
  columns are kept as the values they encode.

  \<open>save_session\<close> runs inside \<open>try: ... except Exception: return False\<close>. Its line
  \<open>json.dumps(session.detection_result.model_dump()) if session.detectionResult else "{}"\<close>
  reads the attribute \<open>detection_result\<close>, which \<open>SessionState\<close> does not declare (the
  field is \<open>detectionResult\<close>): whenever \<open>session.detectionResult\<close> is set, the read
  raises \<open>AttributeError\<close> before any SQL statement is run, and the function returns
  \<open>False\<close> with the table unchanged.
\<close>

type_synonym Database = "string \<rightharpoonup> SessionState"

definition save_session :: "Database \<Rightarrow> SessionState \<Rightarrow> Database \<times> bool" where
  "save_session db session =
     (case detectionResult session of
        Some d \<Rightarrow> (db, False)
      | None \<Rightarrow>
          (case db (sessionId session) of
             Some row \<Rightarrow> (db(sessionId session \<mapsto> session\<lparr>createdAt := createdAt row\<rparr>), True)
           | None \<Rightarrow> (db(sessionId session \<mapsto> session), True)))"

definition get_session :: "Database \<Rightarrow> string \<Rightarrow> SessionState option" where
  \<comment> \<open>\<open>SELECT * FROM sessions WHERE session_id = ?\<close>: the row found carries that id\<close>
  "get_session db session_id = map_option (\<lambda>row. row\<lparr>sessionId := session_id\<rparr>) (db session_id)"

definition mark_callback_sent :: "Database \<Rightarrow> string \<Rightarrow> Database \<times> bool" where
  \<comment> \<open>\<open>UPDATE sessions SET callback_sent = 1 WHERE session_id = ?\<close>\<close>
  "mark_callback_sent db session_id =
     (case db session_id of
        None \<Rightarrow> (db, True)
      | Some row \<Rightarrow> (db(session_id \<mapsto> row\<lparr>callbackSent := True\<rparr>), True))"

section \<open>The callback (core/callback.py)\<close>

definition callback_payload :: "SessionState \<Rightarrow> GUVICallbackPayload" where
  "callback_payload session =
     \<lparr>cb_sessionId = sessionId session,
      cb_scamDetected = (case detectionResult session of None \<Rightarrow> False | Some d \<Rightarrow> scamDetected d),
      cb_totalMessagesExchanged = totalMessagesExchanged (engagementMetrics session),
      cb_extractedIntelligence = extractedIntelligence session,
      cb_agentNotes = agentNotes session\<rparr>"


section \<open>The endpoint (app/main.py)\<close>

text \<open>
  The state that outlives a request: the stored sessions, the process-wide dictionary
  \<open>active_agents\<close> and the two singleton objects. What a request reads from outside the
  process is gathered in \<open>World\<close>: the clock (\<open>datetime.utcnow()\<close> and the difference
  \<open>time.time() - start_time\<close>), the random numbers for the persona and for the reply,
  and whether the callback's POST is answered with status 200.
\<close>

record Server =
  db :: Database
  active_agents :: "string \<rightharpoonup> AutonomousAgent"
  detector :: ScamDetector
  extractor :: IntelligenceExtractor

definition server_init :: Server where
  "server_init =
     \<lparr>db = Map.empty, active_agents = Map.empty, detector = ScamDetector_init,
      extractor = IntelligenceExtractor_init\<rparr>"

record World =
  now :: nat
  elapsed :: rat
  rnd_persona :: nat
  rnd_reply :: nat
  callback_ok :: bool

record Outcome =
  response :: AgentResponse
  server :: Server
  callbacks :: "GUVICallbackPayload list"
  session_after :: "SessionState option"

definition error_response :: AgentResponse where
  "error_response =
     \<lparr>status = error, reply = ''I'm sorry, I'm having trouble understanding. Could you repeat that?''\<rparr>"

definition load_session :: "Server \<Rightarrow> string \<Rightarrow> nat \<Rightarrow> SessionState" where
  \<comment> \<open>\<open>get_session\<close>, or a new \<open>SessionState\<close>\<close>
  "load_session srv session_id t =
     (case get_session (db srv) session_id of
        None \<Rightarrow> new_session session_id t
      | Some session \<Rightarrow> session)"

definition add_messages :: "SessionState \<Rightarrow> IncomingRequest \<Rightarrow> SessionState" where
  \<comment> \<open>the set \<open>existing\<close> is built once, before the loop over the history\<close>
  "add_messages session request =
     (let msgs = messages session @ [req_message request];
          existing = set (map (\<lambda>m. (sender m, msg_text m)) msgs)
      in session\<lparr>messages :=
           msgs @ filter (\<lambda>msg. (sender msg, msg_text msg) \<notin> existing) (conversationHistory request)\<rparr>)"

definition merge_field :: "string list \<Rightarrow> string list \<Rightarrow> string list" where
  \<comment> \<open>\<open>for x in new: if x not in acc: acc.append(x)\<close>\<close>
  "merge_field acc new = fold (\<lambda>x acc. append_new acc x) new acc"

definition merge_intelligence :: "ExtractedIntelligence \<Rightarrow> ExtractedIntelligence \<Rightarrow> ExtractedIntelligence" where
  "merge_intelligence acc extracted_intel =
     \<lparr>bankAccounts = merge_field (bankAccounts acc) (bankAccounts extracted_intel),
      ifscCodes = merge_field (ifscCodes acc) (ifscCodes extracted_intel),
      upiIds = merge_field (upiIds acc) (upiIds extracted_intel),
      phishingLinks = merge_field (phishingLinks acc) (phishingLinks extracted_intel),
      phoneNumbers = merge_field (phoneNumbers acc) (phoneNumbers extracted_intel),
      suspiciousKeywords = merge_field (suspiciousKeywords acc) (suspiciousKeywords extracted_intel)\<rparr>"

definition detect_and_extract ::
  "Library \<Rightarrow> Settings \<Rightarrow> Server \<Rightarrow> SessionState \<Rightarrow> ScamDetectionResult \<times> SessionState" where
  \<comment> \<open>steps 1 and 2: detection, extraction and the merge into the session\<close>
  "detect_and_extract lib cfg srv session =
     (let detection_result = detect lib cfg (detector srv) (messages session);
          session = session\<lparr>detectionResult := Some detection_result\<rparr>;
          extracted_intel = extract_intelligence lib (extractor srv) (messages session)
      in (detection_result,
          session\<lparr>extractedIntelligence :=
            merge_intelligence (extractedIntelligence session) extracted_intel\<rparr>))"

definition agent_handoff ::
  "Settings \<Rightarrow> Server \<Rightarrow> SessionState \<Rightarrow> ScamDetectionResult \<Rightarrow> World \<Rightarrow>
   string \<times> SessionState \<times> Server" where
  \<comment> \<open>step 3: the reply, the session with the reply appended, the server with the agent as the call leaves it\<close>
  "agent_handoff cfg srv session detection_result w =
     (if scamDetected detection_result \<and>
         SCAM_DETECTION_THRESHOLD cfg \<le> confidenceScore detection_result
      then
        let session_id = sessionId session;
            agt = (case active_agents srv session_id of
                     None \<Rightarrow> create_agent session_id (scamType detection_result) (rnd_persona w) (now w)
                   | Some a \<Rightarrow> a);
            (agent_response, agt) =
               generate_response agt (messages session) (extractedIntelligence session) (rnd_reply w)
        in (agent_response,
            session\<lparr>messages := messages session @
               [\<lparr>sender = AGENT, msg_text = agent_response, timestamp = None\<rparr>]\<rparr>,
            srv\<lparr>active_agents := (active_agents srv)(session_id \<mapsto> agt)\<rparr>)
      else (''Thank you for the information. I'll look into this.'', session, srv))"

definition scammer_message_count :: "SessionState \<Rightarrow> nat" where
  "scammer_message_count session = length (filter (\<lambda>m. sender m = SCAMMER) (messages session))"

definition should_send_callback :: "Settings \<Rightarrow> ScamDetectionResult \<Rightarrow> nat \<Rightarrow> SessionState \<Rightarrow> bool" where
  "should_send_callback cfg detection_result scammer_msgs session =
     (scamDetected detection_result \<and>
      MIN_TURNS_BEFORE_CALLBACK cfg \<le> int scammer_msgs \<and>
      \<not> callbackSent session \<and>
      has_intelligence (extractedIntelligence session))"

definition send_callback_step :: "Server \<Rightarrow> SessionState \<Rightarrow> World \<Rightarrow> SessionState \<times> Server \<times> GUVICallbackPayload" where
  \<comment> \<open>the body of \<open>if should_send_callback:\<close>\<close>
  "send_callback_step srv session w =
     (let session = (case active_agents srv (sessionId session) of
                       Some agt \<Rightarrow> session\<lparr>agentNotes := generate_agent_notes agt (extractedIntelligence session)\<rparr>
                     | None \<Rightarrow> session);
          db1 = fst (save_session (db srv) session);
          payload = callback_payload session
      in if callback_ok w
         then (session\<lparr>callbackSent := True\<rparr>,
               srv\<lparr>db := fst (mark_callback_sent db1 (sessionId session))\<rparr>, payload)
         else (session, srv\<lparr>db := db1\<rparr>, payload))"

text \<open>
  The body of the endpoint, after the API key has been accepted. One statement raises
  inside the \<open>try\<close> block, and the handler then answers with the error reply:
  \<open>session.metadata = request.metadata.model_dump()\<close>. \<open>SessionState\<close> declares no
  field \<open>metadata\<close>, and assigning an undeclared field of a pydantic model raises
  \<open>ValueError\<close>. The statement runs whenever the request carries metadata (which is
  also the default when the key is absent); only an explicit \<open>null\<close> skips it. Nothing
  has been stored at that point.

  The clock difference \<open>time.time() - start_time\<close> is taken to be non-negative, as
  \<open>EngagementMetrics\<close> requires of \<open>engagementDurationSeconds\<close>.
\<close>

definition scam_detection :: "Library \<Rightarrow> Settings \<Rightarrow> Server \<Rightarrow> IncomingRequest \<Rightarrow> World \<Rightarrow> Outcome" where
  "scam_detection lib cfg srv request w =
     (let session_id = req_sessionId request;
          session = load_session srv session_id (now w);
          session = add_messages session request
      in if metadata request \<noteq> None
         then \<lparr>response = error_response, server = srv, callbacks = [], session_after = None\<rparr>
         else
           let (detection_result, session) = detect_and_extract lib cfg srv session;
               (agent_response, session, srv) = agent_handoff cfg srv session detection_result w;
               scammer_msgs = scammer_message_count session;
               session = session\<lparr>engagementMetrics :=
                     \<lparr>totalMessagesExchanged = length (messages session),
                      numberOfTurns = scammer_msgs,
                      engagementDurationSeconds = elapsed w,
                      scamDetectionConfidence = confidenceScore detection_result\<rparr>\<rparr>
           in if should_send_callback cfg detection_result scammer_msgs session
              then
                let (session, srv, payload) = send_callback_step srv session w;
                    session = session\<lparr>updatedAt := now w\<rparr>;
                    srv = srv\<lparr>db := fst (save_session (db srv) session)\<rparr>
                in \<lparr>response = \<lparr>status = success, reply = agent_response\<rparr>, server = srv,
                    callbacks = [payload], session_after = Some session\<rparr>
              else
                let session = session\<lparr>updatedAt := now w\<rparr>;
                    srv = srv\<lparr>db := fst (save_session (db srv) session)\<rparr>
                in \<lparr>response = \<lparr>status = success, reply = agent_response\<rparr>, server = srv,
                    callbacks = [], session_after = Some session\<rparr>)"

text \<open>
  What a request works on: the messages of the session when detection and extraction
  run, and the accumulated intelligence after the merge.
\<close>

definition transcript :: "Server \<Rightarrow> IncomingRequest \<Rightarrow> World \<Rightarrow> Message list" where
  "transcript srv request w =
     messages (add_messages (load_session srv (req_sessionId request) (now w)) request)"

definition accumulated :: "Library \<Rightarrow> Server \<Rightarrow> IncomingRequest \<Rightarrow> World \<Rightarrow> ExtractedIntelligence" where
  "accumulated lib srv request w =
     merge_intelligence
       (extractedIntelligence (load_session srv (req_sessionId request) (now w)))
       (extract_intelligence lib (extractor srv) (transcript srv request w))"

definition ready :: "Library \<Rightarrow> Settings \<Rightarrow> Server \<Rightarrow> IncomingRequest \<Rightarrow> World \<Rightarrow> bool" where
  \<comment> \<open>the four conditions of \<open>should_send_callback\<close>, on what the request works on\<close>
  "ready lib cfg srv request w =
     (scamDetected (detect lib cfg (detector srv) (transcript srv request w)) \<and>
      MIN_TURNS_BEFORE_CALLBACK cfg
        \<le> int (length (filter (\<lambda>m. sender m = SCAMMER) (transcript srv request w))) \<and>
      \<not> callbackSent (load_session srv (req_sessionId request) (now w)) \<and>
      has_intelligence (accumulated lib srv request w))"

text \<open>A conversation: the requests of a client, each with what the world supplies.\<close>

fun run_turns ::
  "Library \<Rightarrow> Settings \<Rightarrow> Server \<Rightarrow> (IncomingRequest \<times> World) list \<Rightarrow> Outcome list" where
  "run_turns lib cfg srv [] = []"
| "run_turns lib cfg srv ((request, w) # rest) =
     (let out = scam_detection lib cfg srv request w
      in out # run_turns lib cfg (server out) rest)"


section \<open>A worked example\<close>

text \<open>
  Three texts, with what Python's \<open>re\<close> finds in them for the patterns of the
  configuration (every pair not listed has no match), and what \<open>urlparse\<close> returns for a
  few URLs (\<open>http://[::1\<close> makes it raise \<open>ValueError\<close>; a URL not listed is given the
  empty host, which no example reads). \<open>list(set(xs))\<close> is taken in the order of first
  occurrence.
\<close>

definition example_text_1 :: string where
  "example_text_1 = ''urgent pay abc@ybl hi ok''"

definition example_text_2 :: string where
  "example_text_2 = ''hello''"

definition example_text_3 :: string where
  "example_text_3 = ''call 9876543210 or +91 9876543210 phone: 12345 6789 contact: 12345678901''"

definition example_search :: "string \<Rightarrow> string \<Rightarrow> bool" where
  "example_search pattern txt =
     ((pattern, txt) \<in> set
       [(''urgent'', example_text_1),
        (''@(?:paytm|phonepe|ybl|oksbi|okhdfcbank|okicici|okaxis)'', example_text_1),
        (bs @ ''b'' @ bs @ ''d{4,6}'' @ bs @ ''b'', example_text_3)])"

definition example_finditer :: "string \<Rightarrow> string \<Rightarrow> re_match list" where
  "example_finditer pattern txt =
     (case map_of
        [((bs @ ''b['' @ bs @ ''w.-]+@(?:paytm|phonepe|ybl|oksbi|okhdfcbank|okicici|okaxis|ibl|axl)'' @ bs @ ''b'',
           example_text_1),
          [\<lparr>group0 = ''abc@ybl'', groups = []\<rparr>]),
         ((bs @ ''b['' @ bs @ ''w.-]+@['' @ bs @ ''w]+'' @ bs @ ''b'', example_text_1),
          [\<lparr>group0 = ''abc@ybl'', groups = []\<rparr>]),
         ((bs @ ''b'' @ bs @ ''d{9,18}'' @ bs @ ''b'', example_text_3),
          [\<lparr>group0 = ''9876543210'', groups = []\<rparr>,
           \<lparr>group0 = ''9876543210'', groups = []\<rparr>,
           \<lparr>group0 = ''12345678901'', groups = []\<rparr>]),
         ((bs @ ''+91[-'' @ bs @ ''s]?'' @ bs @ ''d{10}'', example_text_3),
          [\<lparr>group0 = ''+91 9876543210'', groups = []\<rparr>]),
         ((bs @ ''b'' @ bs @ ''d{10}'' @ bs @ ''b'', example_text_3),
          [\<lparr>group0 = ''9876543210'', groups = []\<rparr>,
           \<lparr>group0 = ''9876543210'', groups = []\<rparr>]),
         ((''(?:mobile|phone|contact|call)[:'' @ bs @ ''s]+('' @ bs @ ''+?'' @ bs @ ''d['' @ bs @ ''d'' @ bs @ ''s-]{8,})'',
           example_text_3),
          [\<lparr>group0 = ''call 9876543210 '', groups = [''9876543210 '']\<rparr>,
           \<lparr>group0 = ''phone: 12345 6789 '', groups = [''12345 6789 '']\<rparr>,
           \<lparr>group0 = ''contact: 12345678901'', groups = [''12345678901'']\<rparr>])]
        (pattern, txt) of
        None \<Rightarrow> []
      | Some ms \<Rightarrow> ms)"

definition example_netloc :: "string \<Rightarrow> string option" where
  "example_netloc url =
     (if url = ''https://secure.paytm.com/login'' then Some ''secure.paytm.com''
      else if url = ''http://WWW.Google.com/maps'' then Some ''WWW.Google.com''
      else if url = ''http://www.flipkart.com/offers'' then Some ''www.flipkart.com''
      else if url = ''http://myhome.org/page'' then Some ''myhome.org''
      else if url = ''http://[::1'' then None
      else Some [])"

definition example_lib :: Library where
  "example_lib =
     \<lparr>re_search = example_search, re_finditer = example_finditer,
      urlparse_netloc = example_netloc, list_of_set = remdups\<rparr>"

definition scammer_says :: "string \<Rightarrow> Message" where
  "scammer_says t = \<lparr>sender = SCAMMER, msg_text = t, timestamp = None\<rparr>"

definition example_messages_1 :: "Message list" where
  "example_messages_1 =
     [scammer_says ''urgent pay abc@ybl'', scammer_says ''hi'', scammer_says ''ok'']"

text \<open>
  Two requests for the session \<open>s1\<close>, both with \<open>"metadata": null\<close>: the first carries
  three scammer messages (one of them with a UPI id), the second a greeting.
\<close>

definition request_1 :: IncomingRequest where
  "request_1 =
     \<lparr>req_sessionId = ''s1'', req_message = scammer_says ''urgent pay abc@ybl'',
      conversationHistory = [scammer_says ''hi'', scammer_says ''ok''], metadata = None\<rparr>"

definition request_2 :: IncomingRequest where
  "request_2 =
     \<lparr>req_sessionId = ''s1'', req_message = scammer_says ''hello'',
      conversationHistory = [], metadata = None\<rparr>"

definition world_ok :: World where
  "world_ok = \<lparr>now = 0, elapsed = 0, rnd_persona = 0, rnd_reply = 0, callback_ok = True\<rparr>"

definition world_down :: World where
  "world_down = \<lparr>now = 0, elapsed = 0, rnd_persona = 0, rnd_reply = 0, callback_ok = False\<rparr>"

text \<open>
  An agent for a UPI fraud, and a scammer message that mentions both UPI and a bank
  transfer while nothing has been extracted; \<open>example_agent_2\<close> is the agent after it has
  answered that message twice.
\<close>

definition example_agent_0 :: AutonomousAgent where
  "example_agent_0 = create_agent ''s1'' UPI_FRAUD 0 0"

definition example_call :: "Message list \<times> ExtractedIntelligence \<times> nat" where
  "example_call = ([scammer_says ''pay by upi or bank transfer''], empty_intelligence, 0)"

definition example_agent_2 :: AutonomousAgent where
  "example_agent_2 = snd (last (respond_all example_agent_0 [example_call, example_call]))"


section \<open>URL suspicion\<close>











section \<open>Scam type\<close>

lemma detect_empty:
  "category_matches_of lib self msgs = [] \<Longrightarrow> detect lib cfg self msgs = negative_result"
  by (auto simp: detect_def category_matches_of_def Let_def split: prod.splits)

lemma detect_matched:
  "category_matches_of lib self msgs \<noteq> [] \<Longrightarrow>
   detect lib cfg self msgs =
     (let all_text = lower (join '' '' (map msg_text msgs));
          category_matches = category_matches_of lib self msgs;
          confidence = calculate_confidence category_matches all_text;
          scam_type = determine_scam_type category_matches
      in \<lparr>scamDetected = (SCAM_DETECTION_THRESHOLD cfg \<le> confidence),
          confidenceScore = round2 confidence, scamType = scam_type,
          indicators = take 10 (list_of_set lib
             (fst (fold (scan_category lib all_text) (compiled_patterns self) ([], [])))),
          reasoning = generate_reasoning category_matches scam_type\<rparr>)"
  by (auto simp: detect_def category_matches_of_def Let_def split: prod.splits)

text \<open>
  C5. The scam type follows the fixed priority UPI fraud, bank fraud, phishing, fake
  offer, OTP harvesting: the first of these categories that matched decides; when none of
  them matched, urgency or suspicious keywords give phishing; otherwise the type is
  unknown. The same holds of the type \<open>detect\<close> returns for a transcript.
\<close>

theorem scam_type_priority:
  "determine_scam_type cm =
     (if has_key cm ''upi_fraud'' then UPI_FRAUD
      else if has_key cm ''bank_fraud'' then BANK_FRAUD
      else if has_key cm ''phishing'' then PHISHING
      else if has_key cm ''fake_offers'' then FAKE_OFFER
      else if has_key cm ''otp_pin_harvesting'' then OTP_HARVESTING
      else if has_key cm ''urgency'' \<or> has_key cm ''suspicious_keywords'' then PHISHING
      else UNKNOWN) \<and>
   scamType (detect lib cfg self msgs) = determine_scam_type (category_matches_of lib self msgs)"
proof -
  have "scamType (detect lib cfg self msgs) = determine_scam_type (category_matches_of lib self msgs)"
  proof (cases "category_matches_of lib self msgs = []")
    case True
    then show ?thesis
      by (simp add: detect_empty negative_result_def determine_scam_type_def priority_def has_key_def)
  next
    case False
    then show ?thesis by (simp add: detect_matched Let_def)
  qed
  then show ?thesis by (simp add: determine_scam_type_def priority_def)
qed


section \<open>Confidence score\<close>

lemma fold_bonus:
  "fold (\<lambda>(category, matches) b.
            if 3 \<le> length matches
            then (if 2 \<le> length matches then b + 1 / 10 else b) + 1 / 10
            else (if 2 \<le> length matches then b + 1 / 10 else b)) cm (b0 :: rat)
   = b0 + (\<Sum>(category, matches) \<leftarrow> cm.
          (if 2 \<le> length matches then 1 / 10 else 0) + (if 3 \<le> length matches then 1 / 10 else 0))"
  by (induction cm arbitrary: b0) auto

lemma fold_critical:
  "fold (\<lambda>crit b. if P crit then b + 15 / 100 else b) cs (b0 :: rat)
   = b0 + (\<Sum>crit \<leftarrow> cs. if P crit then 15 / 100 else 0)"
  by (induction cs arbitrary: b0) auto

lemma calculate_confidence_additive:
  "calculate_confidence cm t = min (additive_score cm) (99 / 100)"
  unfolding calculate_confidence_def additive_score_def Let_def fold_bonus fold_critical
  by (simp add: algebra_simps)

lemma bonus_nonneg:
  "0 \<le> (\<Sum>(category, matches) \<leftarrow> cm.
          (if 2 \<le> length matches then 1 / 10 else 0) + (if 3 \<le> length matches then (1 / 10 :: rat) else 0))"
  by (induction cm) auto

lemma critical_nonneg:
  "0 \<le> (\<Sum>crit \<leftarrow> cs. if P crit then (15 / 100 :: rat) else 0)"
  by (induction cs) auto

lemma additive_score_nonneg: "0 \<le> additive_score cm"
proof -
  have "0 \<le> min (of_nat (length cm) * (15 / 100)) (45 / 100 :: rat)" by simp
  then show ?thesis
    unfolding additive_score_def
    using bonus_nonneg [of cm] critical_nonneg [of "has_key cm" critical_categories]
    by (auto intro!: add_nonneg_nonneg)
qed

lemma cents_add: "cents x \<Longrightarrow> cents y \<Longrightarrow> cents (x + y)"
  by (simp add: cents_def distrib_right)

lemma cents_min: "cents x \<Longrightarrow> cents y \<Longrightarrow> cents (min x y)"
  by (simp add: min_def)

lemma cents_consts:
  "cents 0" "cents (1 / 10)" "cents (15 / 100)" "cents (45 / 100)" "cents (99 / 100)"
  "cents (3 / 20)" "cents (9 / 20)"
  by (simp_all add: cents_def)

lemma cents_nat: "cents (of_nat n * (15 / 100))"
proof -
  have "of_nat n * (15 / 100) * (100 :: rat) = of_nat (n * 15)" by simp
  then show ?thesis unfolding cents_def by (metis Ints_of_nat)
qed

lemma cents_bonus:
  "cents (\<Sum>(category, matches) \<leftarrow> cm.
          (if 2 \<le> length matches then 1 / 10 else 0) + (if 3 \<le> length matches then 1 / 10 else 0))"
  by (induction cm) (auto intro!: cents_add cents_consts)

lemma cents_critical: "cents (\<Sum>crit \<leftarrow> cs. if P crit then 15 / 100 else 0)"
  by (induction cs) (auto intro!: cents_add cents_consts)

lemma cents_additive_score: "cents (additive_score cm)"
  unfolding additive_score_def
  by (intro cents_add cents_min cents_nat cents_bonus cents_critical) (auto intro: cents_consts)

lemma round2_cents: "cents x \<Longrightarrow> round2 x = x"
proof -
  assume "cents x"
  then obtain k :: int where k: "x * 100 = of_int k"
    unfolding cents_def by (auto elim: Ints_cases)
  then have "round_half_even (x * 100) = k"
    by (simp add: round_half_even_def)
  then have "round2 x = of_int k / 100" by (simp add: round2_def)
  also have "\<dots> = x" using k by (simp add: field_simps)
  finally show ?thesis .
qed

lemma category_matches_example_1:
  "category_matches_of example_lib ScamDetector_init example_messages_1 =
     [(''urgency'', [''urgent'']),
      (''upi_fraud'', [''@(?:paytm|phonepe|ybl|oksbi|okhdfcbank|okicici|okaxis)''])]"
  by code_simp

lemma category_matches_example_2:
  "category_matches_of example_lib ScamDetector_init [scammer_says ''hello''] = []"
  by code_simp

text \<open>
  C4. The confidence score \<open>detect\<close> returns lies between \<open>0\<close> and \<open>0.99\<close>. When at least
  one category matched it is the additive score capped at \<open>0.99\<close> (rounding to two
  decimals leaves it unchanged); when no category matched the result is exactly "not
  detected, confidence 0.1, type unknown, no indicators".
\<close>

theorem confidence_bounds:
  "0 \<le> confidenceScore (detect lib cfg self msgs) \<and>
   confidenceScore (detect lib cfg self msgs) \<le> 99 / 100 \<and>
   (category_matches_of lib self msgs \<noteq> [] \<longrightarrow>
      confidenceScore (detect lib cfg self msgs)
        = min (additive_score (category_matches_of lib self msgs)) (99 / 100)) \<and>
   (category_matches_of lib self msgs = [] \<longrightarrow>
      detect lib cfg self msgs =
        \<lparr>scamDetected = False, confidenceScore = 1 / 10, scamType = UNKNOWN, indicators = [],
         reasoning = ''No scam indicators detected''\<rparr>)"
proof (cases "category_matches_of lib self msgs = []")
  case True
  then show ?thesis by (simp add: detect_empty negative_result_def)
next
  case False
  let ?cm = "category_matches_of lib self msgs"
  have c: "cents (min (additive_score ?cm) (99 / 100))"
    by (intro cents_min cents_additive_score cents_consts)
  have "confidenceScore (detect lib cfg self msgs) = min (additive_score ?cm) (99 / 100)"
    using False by (simp add: detect_matched Let_def calculate_confidence_additive round2_cents [OF c])
  moreover have "0 \<le> min (additive_score ?cm) (99 / 100)"
    using additive_score_nonneg [of ?cm] by simp
  ultimately show ?thesis using False by simp
qed

theorem confidence_bounds_witness:
  "category_matches_of example_lib ScamDetector_init example_messages_1 \<noteq> [] \<and>
   confidenceScore (detect example_lib default_settings ScamDetector_init example_messages_1) = 7 / 10 \<and>
   category_matches_of example_lib ScamDetector_init [scammer_says ''hello''] = [] \<and>
   detect example_lib default_settings ScamDetector_init [scammer_says ''hello''] =
     \<lparr>scamDetected = False, confidenceScore = 1 / 10, scamType = UNKNOWN, indicators = [],
      reasoning = ''No scam indicators detected''\<rparr>"
proof -
  have score: "additive_score (category_matches_of example_lib ScamDetector_init example_messages_1) = 7 / 10"
    by (simp add: category_matches_example_1 additive_score_def critical_categories_def has_key_def)
  have a: "confidenceScore (detect example_lib default_settings ScamDetector_init example_messages_1) = 7 / 10"
    using confidence_bounds [of example_lib default_settings ScamDetector_init example_messages_1]
      category_matches_example_1 score by simp
  have b: "detect example_lib default_settings ScamDetector_init [scammer_says ''hello''] =
     \<lparr>scamDetected = False, confidenceScore = 1 / 10, scamType = UNKNOWN, indicators = [],
      reasoning = ''No scam indicators detected''\<rparr>"
    using confidence_bounds [of example_lib default_settings ScamDetector_init "[scammer_says ''hello'']"]
      category_matches_example_2 by simp
  show ?thesis using a b category_matches_example_1 category_matches_example_2 by simp
qed

section \<open>Determinism of the classifier\<close>




section \<open>Phone numbers\<close>




lemma fold_phone_distinct:
  "distinct acc \<Longrightarrow>
   distinct (fold (\<lambda>m numbers. case normalize_phone (match_value m) of
                       None \<Rightarrow> numbers | Some normalized \<Rightarrow> append_new numbers normalized) ms acc)"
  by (induction ms arbitrary: acc) (auto simp: append_new_def split: option.splits)







section \<open>The callback decision\<close>

lemma save_session_detected:
  "detectionResult session = Some d \<Longrightarrow> save_session db0 session = (db0, False)"
  by (simp add: save_session_def)

lemma agent_handoff_frame:
  "agent_handoff cfg srv session det w = (r, session', srv') \<Longrightarrow>
     callbackSent session' = callbackSent session \<and>
     extractedIntelligence session' = extractedIntelligence session \<and>
     detectionResult session' = detectionResult session \<and>
     sessionId session' = sessionId session \<and>
     scammer_message_count session' = scammer_message_count session \<and>
     db srv' = db srv \<and> detector srv' = detector srv \<and> extractor srv' = extractor srv"
  by (auto simp: agent_handoff_def Let_def scammer_message_count_def split: if_splits prod.splits)

lemma detect_and_extract_frame:
  "detect_and_extract lib cfg srv session = (det, session') \<Longrightarrow>
     det = detect lib cfg (detector srv) (messages session) \<and>
     detectionResult session' = Some det \<and>
     extractedIntelligence session' =
       merge_intelligence (extractedIntelligence session)
         (extract_intelligence lib (extractor srv) (messages session)) \<and>
     messages session' = messages session \<and>
     callbackSent session' = callbackSent session \<and>
     sessionId session' = sessionId session"
  by (auto simp: detect_and_extract_def Let_def)

lemma add_messages_frame:
  "callbackSent (add_messages session request) = callbackSent session \<and>
   extractedIntelligence (add_messages session request) = extractedIntelligence session \<and>
   sessionId (add_messages session request) = sessionId session"
  by (simp add: add_messages_def Let_def)


lemma callback_decision:
  "callbacks (scam_detection lib cfg srv request w) \<noteq> [] \<longleftrightarrow>
     metadata request = None \<and> ready lib cfg srv request w"
proof (cases "metadata request")
  case (Some m)
  then show ?thesis by (simp add: scam_detection_def Let_def)
next
  case None
  let ?s0 = "add_messages (load_session srv (req_sessionId request) (now w)) request"
  obtain det s1 where de: "detect_and_extract lib cfg srv ?s0 = (det, s1)"
    by (cases "detect_and_extract lib cfg srv ?s0")
  obtain r s2 srv2 where ah: "agent_handoff cfg srv s1 det w = (r, s2, srv2)"
    by (cases "agent_handoff cfg srv s1 det w")
  note f1 = detect_and_extract_frame [OF de]
  note f2 = agent_handoff_frame [OF ah]
  have "callbacks (scam_detection lib cfg srv request w) \<noteq> [] \<longleftrightarrow>
        should_send_callback cfg det (scammer_message_count s2)
          (s2\<lparr>engagementMetrics :=
               \<lparr>totalMessagesExchanged = length (messages s2),
                numberOfTurns = scammer_message_count s2,
                engagementDurationSeconds = elapsed w,
                scamDetectionConfidence = confidenceScore det\<rparr>\<rparr>)"
    using None de ah by (simp add: scam_detection_def Let_def split: prod.splits)
  also have "\<dots> \<longleftrightarrow> ready lib cfg srv request w"
    using f1 f2 add_messages_frame [of "load_session srv (req_sessionId request) (now w)" request]
    by (simp add: should_send_callback_def ready_def transcript_def accumulated_def
        scammer_message_count_def)
  finally show ?thesis using None by simp
qed





section \<open>The callback latch and the stored session\<close>

text \<open>
  Within one request the latch works: a stored session whose \<open>callbackSent\<close> is true
  makes no callback, and the flag of the session object becomes true only by a
  callback that succeeded in this request.
\<close>

lemma latch_within_turn:
  "db srv (req_sessionId request) = Some s \<Longrightarrow> callbackSent s \<Longrightarrow>
   callbacks (scam_detection lib cfg srv request w) = []"
  using callback_decision [of lib cfg srv request w]
  by (simp add: ready_def load_session_def get_session_def)

lemma send_callback_step_flag:
  "send_callback_step srv session w = (session', srv', payload) \<Longrightarrow>
   callbackSent session' = (callbackSent session \<or> callback_ok w)"
  by (auto simp: send_callback_step_def Let_def split: option.splits if_splits)

lemma flag_after_turn:
  "session_after (scam_detection lib cfg srv request w) = Some s' \<Longrightarrow>
   callbackSent s' =
     (callbackSent (load_session srv (req_sessionId request) (now w)) \<or>
      (callbacks (scam_detection lib cfg srv request w) \<noteq> [] \<and> callback_ok w))"
proof -
  assume a: "session_after (scam_detection lib cfg srv request w) = Some s'"
  then have m: "metadata request = None"
    by (auto simp: scam_detection_def Let_def split: if_splits)
  let ?s0 = "add_messages (load_session srv (req_sessionId request) (now w)) request"
  obtain det s1 where de: "detect_and_extract lib cfg srv ?s0 = (det, s1)"
    by (cases "detect_and_extract lib cfg srv ?s0")
  obtain r s2 srv2 where ah: "agent_handoff cfg srv s1 det w = (r, s2, srv2)"
    by (cases "agent_handoff cfg srv s1 det w")
  note f1 = detect_and_extract_frame [OF de]
  note f2 = agent_handoff_frame [OF ah]
  let ?s3 = "s2\<lparr>engagementMetrics :=
               \<lparr>totalMessagesExchanged = length (messages s2),
                numberOfTurns = scammer_message_count s2,
                engagementDurationSeconds = elapsed w,
                scamDetectionConfidence = confidenceScore det\<rparr>\<rparr>"
  have base: "callbackSent ?s3 = callbackSent (load_session srv (req_sessionId request) (now w))"
    using f1 f2 add_messages_frame [of "load_session srv (req_sessionId request) (now w)" request]
    by simp
  show ?thesis
  proof (cases "should_send_callback cfg det (scammer_message_count s2) ?s3")
    case True
    obtain s4 srv4 payload where sc: "send_callback_step srv2 ?s3 w = (s4, srv4, payload)"
      by (cases "send_callback_step srv2 ?s3 w")
    have "s' = s4\<lparr>updatedAt := now w\<rparr>" and "callbacks (scam_detection lib cfg srv request w) \<noteq> []"
      using a m de ah True sc by (simp_all add: scam_detection_def Let_def)
    then show ?thesis using send_callback_step_flag [OF sc] base True
      by (simp add: should_send_callback_def)
  next
    case False
    have "s' = ?s3\<lparr>updatedAt := now w\<rparr>" and "callbacks (scam_detection lib cfg srv request w) = []"
      using a m de ah False by (simp_all add: scam_detection_def Let_def)
    then show ?thesis using base by simp
  qed
qed

lemma failed_callback_is_retried:
  "(let outs = run_turns example_lib default_settings server_init
                 [(request_1, world_down), (request_1, world_ok)]
    in map (\<lambda>out. length (callbacks out)) outs = [1, 1] \<and>
       map (\<lambda>out. map_option callbackSent (session_after out)) outs = [Some False, Some True])"
  by code_simp


text \<open>
  Across requests it does not: \<open>save_session\<close> fails on every session the endpoint
  passes to it, so a request changes the table only by \<open>mark_callback_sent\<close>, which
  updates a row that exists. No row is ever created, every request of a session starts
  from a new \<open>SessionState\<close>, and a request that made the callback makes it again when it
  is repeated.
\<close>

lemma db_after_turn:
  "db (server (scam_detection lib cfg srv request w)) =
     (if callbacks (scam_detection lib cfg srv request w) \<noteq> [] \<and> callback_ok w
      then fst (mark_callback_sent (db srv) (req_sessionId request))
      else db srv)"
proof (cases "metadata request")
  case (Some m)
  then show ?thesis by (simp add: scam_detection_def Let_def)
next
  case None
  let ?s0 = "add_messages (load_session srv (req_sessionId request) (now w)) request"
  obtain det s1 where de: "detect_and_extract lib cfg srv ?s0 = (det, s1)"
    by (cases "detect_and_extract lib cfg srv ?s0")
  obtain r s2 srv2 where ah: "agent_handoff cfg srv s1 det w = (r, s2, srv2)"
    by (cases "agent_handoff cfg srv s1 det w")
  note f1 = detect_and_extract_frame [OF de]
  note f2 = agent_handoff_frame [OF ah]
  have sid: "sessionId s2 = req_sessionId request"
    using f1 f2 add_messages_frame [of "load_session srv (req_sessionId request) (now w)" request]
    by (auto simp: load_session_def new_session_def get_session_def split: option.splits)
  let ?s3 = "s2\<lparr>engagementMetrics :=
               \<lparr>totalMessagesExchanged = length (messages s2),
                numberOfTurns = scammer_message_count s2,
                engagementDurationSeconds = elapsed w,
                scamDetectionConfidence = confidenceScore det\<rparr>\<rparr>"
  have dr: "detectionResult ?s3 = Some det" using f1 f2 by simp
  show ?thesis
  proof (cases "should_send_callback cfg det (scammer_message_count s2) ?s3")
    case True
    obtain s4 srv4 payload where sc: "send_callback_step srv2 ?s3 w = (s4, srv4, payload)"
      by (cases "send_callback_step srv2 ?s3 w")
    have s4: "detectionResult s4 = Some det \<and>
       db srv4 = (if callback_ok w then fst (mark_callback_sent (db srv) (req_sessionId request)) else db srv)"
      using sc dr f2 sid
      by (auto simp: send_callback_step_def Let_def save_session_detected split: option.splits if_splits)
    have "callbacks (scam_detection lib cfg srv request w) \<noteq> []"
      and "db (server (scam_detection lib cfg srv request w)) = fst (save_session (db srv4) (s4\<lparr>updatedAt := now w\<rparr>))"
      using None de ah True sc by (simp_all add: scam_detection_def Let_def)
    then show ?thesis using s4 by (simp add: save_session_detected)
  next
    case False
    have "callbacks (scam_detection lib cfg srv request w) = []"
      and "db (server (scam_detection lib cfg srv request w)) = fst (save_session (db srv2) (?s3\<lparr>updatedAt := now w\<rparr>))"
      using None de ah False by (simp_all add: scam_detection_def Let_def)
    then show ?thesis using dr f2 by (simp add: save_session_detected)
  qed
qed

lemma no_row_is_ever_created:
  "db srv sid = None \<Longrightarrow> db (server (scam_detection lib cfg srv request w)) sid = None"
  by (auto simp: db_after_turn mark_callback_sent_def split: option.splits)

lemma load_new_session:
  "db srv (req_sessionId request) = None \<Longrightarrow>
   load_session srv (req_sessionId request) t = new_session (req_sessionId request) t"
  by (simp add: load_session_def get_session_def)

lemma server_frame:
  "detector (server (scam_detection lib cfg srv request w)) = detector srv \<and>
   extractor (server (scam_detection lib cfg srv request w)) = extractor srv"
  by (simp add: scam_detection_def agent_handoff_def send_callback_step_def Let_def
      split: prod.splits if_splits)

lemma ready_new_session:
  "db srv (req_sessionId request) = None \<Longrightarrow> db srv' (req_sessionId request) = None \<Longrightarrow>
   detector srv' = detector srv \<Longrightarrow> extractor srv' = extractor srv \<Longrightarrow>
   ready lib cfg srv' request w' = ready lib cfg srv request w"
  by (simp add: ready_def transcript_def accumulated_def load_new_session new_session_def
      add_messages_def Let_def)

lemma callback_repeats:
  assumes "db srv (req_sessionId request) = None"
    and "callbacks (scam_detection lib cfg srv request w) \<noteq> []"
  shows "callbacks (scam_detection lib cfg (server (scam_detection lib cfg srv request w)) request w') \<noteq> []"
proof -
  let ?srv' = "server (scam_detection lib cfg srv request w)"
  have "db ?srv' (req_sessionId request) = None"
    using assms(1) by (rule no_row_is_ever_created)
  then have "ready lib cfg ?srv' request w' = ready lib cfg srv request w"
    using assms(1) server_frame [of lib cfg srv request w] by (simp add: ready_new_session)
  then show ?thesis using assms(2) by (simp add: callback_decision)
qed

text \<open>
  C1, on the example. The request \<open>request_1\<close> is sent twice for the session \<open>s1\<close> and
  the callback succeeds both times: the first request sets \<open>callbackSent\<close> on its session
  object, no row is stored for \<open>s1\<close>, and the second request invokes the callback again.
\<close>

theorem callback_sent_twice:
  "(let outs = run_turns example_lib default_settings server_init
                 [(request_1, world_ok), (request_1, world_ok)]
    in map (\<lambda>out. length (callbacks out)) outs = [1, 1] \<and>
       map (\<lambda>out. map_option callbackSent (session_after out)) outs = [Some True, Some True] \<and>
       map (\<lambda>out. map_option callbackSent (db (server out) ''s1'')) outs = [None, None])"
  by code_simp

section \<open>Accumulated intelligence\<close>

text \<open>
  The merge of one request keeps every value of the session it loaded, in order, adds
  only new values and introduces no duplicate.
\<close>

lemma set_merge_field: "set (merge_field acc new) = set acc \<union> set new"
  unfolding merge_field_def
  by (induction new arbitrary: acc) (auto simp: append_new_def)

lemma distinct_merge_field: "distinct acc \<Longrightarrow> distinct (merge_field acc new)"
  unfolding merge_field_def
  by (induction new arbitrary: acc) (auto simp: append_new_def)

lemma prefix_merge_field: "prefix acc (merge_field acc new)"
  unfolding merge_field_def
proof (induction new arbitrary: acc)
  case Nil
  then show ?case by simp
next
  case (Cons x new)
  have "prefix acc (append_new acc x)" by (simp add: append_new_def)
  then show ?case using Cons [of "append_new acc x"] by (auto intro: prefix_order.trans)
qed

lemma send_callback_step_intelligence:
  "send_callback_step srv session w = (session', srv', payload) \<Longrightarrow>
   extractedIntelligence session' = extractedIntelligence session"
  by (auto simp: send_callback_step_def Let_def split: option.splits if_splits)

lemma intelligence_after_turn:
  assumes "session_after (scam_detection lib cfg srv request w) = Some s'"
  shows "extractedIntelligence s' = accumulated lib srv request w"
proof -
  from assms have m: "metadata request = None"
    by (auto simp: scam_detection_def Let_def split: if_splits)
  let ?s0 = "add_messages (load_session srv (req_sessionId request) (now w)) request"
  obtain det s1 where de: "detect_and_extract lib cfg srv ?s0 = (det, s1)"
    by (cases "detect_and_extract lib cfg srv ?s0")
  obtain r s2 srv2 where ah: "agent_handoff cfg srv s1 det w = (r, s2, srv2)"
    by (cases "agent_handoff cfg srv s1 det w")
  note f1 = detect_and_extract_frame [OF de]
  note f2 = agent_handoff_frame [OF ah]
  let ?s3 = "s2\<lparr>engagementMetrics :=
               \<lparr>totalMessagesExchanged = length (messages s2),
                numberOfTurns = scammer_message_count s2,
                engagementDurationSeconds = elapsed w,
                scamDetectionConfidence = confidenceScore det\<rparr>\<rparr>"
  have base: "extractedIntelligence ?s3 = accumulated lib srv request w"
    using f1 f2 add_messages_frame [of "load_session srv (req_sessionId request) (now w)" request]
    by (simp add: accumulated_def transcript_def)
  show ?thesis
  proof (cases "should_send_callback cfg det (scammer_message_count s2) ?s3")
    case True
    obtain s4 srv4 payload where sc: "send_callback_step srv2 ?s3 w = (s4, srv4, payload)"
      by (cases "send_callback_step srv2 ?s3 w")
    have "s' = s4\<lparr>updatedAt := now w\<rparr>"
      using assms m de ah True sc by (simp add: scam_detection_def Let_def)
    then show ?thesis using send_callback_step_intelligence [OF sc] base by simp
  next
    case False
    have "s' = ?s3\<lparr>updatedAt := now w\<rparr>"
      using assms m de ah False by (simp add: scam_detection_def Let_def)
    then show ?thesis using base by simp
  qed
qed

lemma turn_merges_monotonically:
  assumes "session_after (scam_detection lib cfg srv request w) = Some s'"
  shows "set (upiIds (extractedIntelligence (load_session srv (req_sessionId request) (now w))))
           \<subseteq> set (upiIds (extractedIntelligence s')) \<and>
         set (bankAccounts (extractedIntelligence (load_session srv (req_sessionId request) (now w))))
           \<subseteq> set (bankAccounts (extractedIntelligence s')) \<and>
         set (ifscCodes (extractedIntelligence (load_session srv (req_sessionId request) (now w))))
           \<subseteq> set (ifscCodes (extractedIntelligence s')) \<and>
         set (phishingLinks (extractedIntelligence (load_session srv (req_sessionId request) (now w))))
           \<subseteq> set (phishingLinks (extractedIntelligence s')) \<and>
         set (phoneNumbers (extractedIntelligence (load_session srv (req_sessionId request) (now w))))
           \<subseteq> set (phoneNumbers (extractedIntelligence s')) \<and>
         set (suspiciousKeywords (extractedIntelligence (load_session srv (req_sessionId request) (now w))))
           \<subseteq> set (suspiciousKeywords (extractedIntelligence s'))"
  by (simp add: intelligence_after_turn [OF assms] accumulated_def merge_intelligence_def
      set_merge_field)

lemma new_session_fields_distinct:
  assumes "db srv (req_sessionId request) = None"
    and "session_after (scam_detection lib cfg srv request w) = Some s'"
  shows "distinct (upiIds (extractedIntelligence s')) \<and>
         distinct (bankAccounts (extractedIntelligence s')) \<and>
         distinct (ifscCodes (extractedIntelligence s')) \<and>
         distinct (phishingLinks (extractedIntelligence s')) \<and>
         distinct (phoneNumbers (extractedIntelligence s')) \<and>
         distinct (suspiciousKeywords (extractedIntelligence s'))"
  by (simp add: intelligence_after_turn [OF assms(2)] accumulated_def merge_intelligence_def
      load_new_session [OF assms(1)] new_session_def empty_intelligence_def distinct_merge_field)

text \<open>
  C3, on the example. After \<open>request_1\<close> the session \<open>s1\<close> has the UPI id \<open>abc@ybl\<close> and
  the keyword \<open>urgent\<close>; after the next request of the same session, \<open>request_2\<close>, both
  lists are empty: the session of the first request was never stored.
\<close>

theorem accumulated_intelligence_lost:
  "(let outs = run_turns example_lib default_settings server_init
                 [(request_1, world_ok), (request_2, world_ok)]
    in map (\<lambda>out. map_option (upiIds \<circ> extractedIntelligence) (session_after out)) outs
         = [Some [''abc@ybl''], Some []] \<and>
       map (\<lambda>out. map_option (suspiciousKeywords \<circ> extractedIntelligence) (session_after out)) outs
         = [Some [''urgent''], Some []] \<and>
       map (\<lambda>out. status (response out)) outs = [success, success])"
  by code_simp

section \<open>Extraction attempts of the agent\<close>

lemma determine_strategy_guard:
  "determine_strategy self msg extracted = field_strategy f \<Longrightarrow>
   field_values f extracted = [] \<and> extraction_attempts (memory self) f < 2"
  by (cases f) (auto simp: determine_strategy_def Let_def split: if_splits)

lemma attempts_update_memory:
  "extraction_attempts (update_memory mem extracted) = extraction_attempts mem"
  by (simp add: update_memory_def mark_extracted_def Let_def)

lemma choice_in_set: "xs \<noteq> [] \<Longrightarrow> choice rnd xs \<in> set xs"
  by (simp add: choice_def)

lemma pools_nonempty:
  "confusion_responses \<noteq> []" "clarification_responses \<noteq> []"
  "cooperative_responses \<noteq> []" "concern_responses \<noteq> []"
  by (simp_all add: confusion_responses_def clarification_responses_def
      cooperative_responses_def concern_responses_def)

lemma stalling_pools:
  "choice rnd confusion_responses \<in> set (confusion_responses @ clarification_responses @ cooperative_responses @ concern_responses)"
  "choice rnd clarification_responses \<in> set (confusion_responses @ clarification_responses @ cooperative_responses @ concern_responses)"
  "choice rnd cooperative_responses \<in> set (confusion_responses @ clarification_responses @ cooperative_responses @ concern_responses)"
  "choice rnd concern_responses \<in> set (confusion_responses @ clarification_responses @ cooperative_responses @ concern_responses)"
  using pools_nonempty by (auto intro: choice_in_set)

lemma question_persona:
  "generate_extraction_question (self\<lparr>turn_count := n, memory := m\<rparr>) dt rnd = generate_extraction_question self dt rnd"
  "get_random_response (self\<lparr>turn_count := n, memory := m\<rparr>) rnd = get_random_response self rnd"
  "get_random_response (self\<lparr>turn_count := n\<rparr>) rnd = get_random_response self rnd"
  by (simp_all add: generate_extraction_question_def get_random_response_def Let_def cong: if_cong)

lemma generate_response_cases:
  assumes "generate_response self msgs extracted rnd = (r, self')"
  shows "(\<exists>g. asks self extracted rnd r self' g) \<or> stalls self rnd r self'"
proof (cases "last_scammer_message msgs")
  case None
  then show ?thesis using assms
    by (auto simp: generate_response_def stalls_def Let_def question_persona)
next
  case (Some msg)
  show ?thesis
  proof (cases "msg = []")
    case True
    then show ?thesis using assms Some
      by (auto simp: generate_response_def stalls_def Let_def question_persona)
  next
    case False
    let ?self1 = "self\<lparr>turn_count := turn_count self + 1, memory := update_memory (memory self) extracted\<rparr>"
    let ?st = "determine_strategy ?self1 msg extracted"
    have g: "?st = field_strategy f \<Longrightarrow> field_values f extracted = [] \<and> extraction_attempts (memory self) f < 2" for f
      using determine_strategy_guard [of ?self1 msg extracted f] by (simp add: attempts_update_memory)
    have eq: "generate_response self msgs extracted rnd =
        (if ?st = extract_upi \<and> \<not> extracted_so_far (memory ?self1) Upi
         then (generate_extraction_question ?self1 ''upi_id'' rnd,
               ?self1\<lparr>memory := record_extraction_attempt (memory ?self1) Upi\<rparr>)
         else if ?st = extract_bank \<and> \<not> extracted_so_far (memory ?self1) Bank
         then (generate_extraction_question ?self1 ''bank_account'' rnd,
               ?self1\<lparr>memory := record_extraction_attempt (memory ?self1) Bank\<rparr>)
         else if ?st = extract_phone \<and> \<not> extracted_so_far (memory ?self1) Phone
         then (generate_extraction_question ?self1 ''phone_number'' rnd,
               ?self1\<lparr>memory := record_extraction_attempt (memory ?self1) Phone\<rparr>)
         else if ?st = extract_link \<and> \<not> extracted_so_far (memory ?self1) Link
         then (generate_extraction_question ?self1 ''phishing_link'' rnd,
               ?self1\<lparr>memory := record_extraction_attempt (memory ?self1) Link\<rparr>)
         else if ?st = express_confusion then (choice rnd confusion_responses, ?self1)
         else if ?st = ask_clarification then (choice rnd clarification_responses, ?self1)
         else if ?st = show_cooperation then (choice rnd cooperative_responses, ?self1)
         else if ?st = express_concern then (choice rnd concern_responses, ?self1)
         else (get_random_response ?self1 rnd, ?self1))"
      using Some False by (simp add: generate_response_def Let_def cong: if_cong)
    have ask: "generate_response self msgs extracted rnd =
          (generate_extraction_question ?self1 (field_data_type f) rnd,
           ?self1\<lparr>memory := record_extraction_attempt (memory ?self1) f\<rparr>)"
      if "?st = field_strategy f" "\<not> extracted_so_far (memory ?self1) f" for f
      using that by (cases f) (simp_all add: eq)
    have fb: "generate_response self msgs extracted rnd = (get_random_response ?self1 rnd, ?self1)"
      if "?st = field_strategy f" "extracted_so_far (memory ?self1) f" for f
      using that by (cases f) (simp_all add: eq)
    have st: "fst (generate_response self msgs extracted rnd)
                \<in> set (confusion_responses @ clarification_responses @ cooperative_responses @ concern_responses) \<and>
              snd (generate_response self msgs extracted rnd) = ?self1"
      if "\<forall>f. ?st \<noteq> field_strategy f"
    proof -
      from that have n: "?st \<noteq> extract_upi" "?st \<noteq> extract_bank" "?st \<noteq> extract_phone" "?st \<noteq> extract_link"
        using field_strategy.simps by metis+
      show ?thesis
        by (cases ?st) (use n in \<open>simp_all add: eq stalling_pools del: set_append\<close>)
    qed
    show ?thesis
    proof (cases "\<exists>f. ?st = field_strategy f")
      case True
      then obtain f where f: "?st = field_strategy f" by blast
      show ?thesis
      proof (cases "extracted_so_far (memory ?self1) f")
        case True
        from fb [OF f True] assms have "r = get_random_response ?self1 rnd" "self' = ?self1" by simp_all
        then have "stalls self rnd r self'"
          by (simp add: stalls_def attempts_update_memory question_persona del: set_append)
        then show ?thesis by blast
      next
        case False
        from ask [OF f False] assms have
          "r = generate_extraction_question ?self1 (field_data_type f) rnd"
          "self' = ?self1\<lparr>memory := record_extraction_attempt (memory ?self1) f\<rparr>" by simp_all
        then have "asks self extracted rnd r self' f"
          using g [OF f]
          by (simp add: asks_def record_extraction_attempt_def attempts_update_memory question_persona)
        then show ?thesis by blast
      qed
    next
      case False
      then have "\<forall>f. ?st \<noteq> field_strategy f" by blast
      from st [OF this] assms have
        "r \<in> set (confusion_responses @ clarification_responses @ cooperative_responses @ concern_responses)"
        "self' = ?self1" by simp_all
      then have "stalls self rnd r self'"
        by (simp add: stalls_def attempts_update_memory del: set_append)
      then show ?thesis by blast
    qed
  qed
qed

lemma attempts_step:
  assumes "generate_response self msgs extracted rnd = (r, self')"
  shows "(extraction_attempts (memory self) f \<le> 2 \<longrightarrow> extraction_attempts (memory self') f \<le> 2) \<and>
         (2 \<le> extraction_attempts (memory self) f \<longrightarrow>
            extraction_attempts (memory self') f = extraction_attempts (memory self) f)"
  using generate_response_cases [OF assms] by (auto simp: asks_def stalls_def)

lemma attempts_run:
  "(r, self') \<in> set (respond_all self inputs) \<Longrightarrow>
     (extraction_attempts (memory self) f \<le> 2 \<longrightarrow> extraction_attempts (memory self') f \<le> 2) \<and>
     (2 \<le> extraction_attempts (memory self) f \<longrightarrow>
        extraction_attempts (memory self') f = extraction_attempts (memory self) f)"
proof (induction inputs arbitrary: self)
  case Nil
  then show ?case by simp
next
  case (Cons inp inputs)
  obtain msgs extracted rnd where inp: "inp = (msgs, extracted, rnd)" by (cases inp)
  obtain r1 self1 where g: "generate_response self msgs extracted rnd = (r1, self1)"
    by (cases "generate_response self msgs extracted rnd")
  from Cons.prems inp g have "(r, self') = (r1, self1) \<or> (r, self') \<in> set (respond_all self1 inputs)"
    by simp
  then show ?case
  proof
    assume "(r, self') = (r1, self1)"
    then show ?thesis using attempts_step [OF g, of f] by simp
  next
    assume "(r, self') \<in> set (respond_all self1 inputs)"
    then show ?thesis using Cons.IH [of self1] attempts_step [OF g, of f] by auto
  qed
qed

lemma example_agent_facts:
  "determine_strategy example_agent_0 ''pay by upi or bank transfer'' empty_intelligence
     = field_strategy Upi"
  "extraction_attempts (memory example_agent_2) Upi = 2"
  "respond_all example_agent_2 [example_call] \<noteq> []"
  by code_simp+

text \<open>
  C8, as the code has it. \<open>_determine_strategy\<close> selects the extraction strategy of a
  field only while nothing has been extracted for the field and its attempt counter is
  below 2. Over any sequence of calls a counter that is at most 2 stays at most 2, and a
  counter that has reached 2 never changes again: the question of that field is not asked
  any more. A call made when the counter of a field has reached 2 still answers by the
  first rule that applies, which is the extraction question of another field that is
  still eligible, a reply from the concern, confusion, clarification or cooperation
  pools, or a response of the persona.
\<close>

theorem extraction_attempts_capped:
  "(determine_strategy self msg extracted = field_strategy f \<longrightarrow>
      field_values f extracted = [] \<and> extraction_attempts (memory self) f < 2) \<and>
   (\<forall>(r, self') \<in> set (respond_all self inputs).
      (extraction_attempts (memory self) f \<le> 2 \<longrightarrow> extraction_attempts (memory self') f \<le> 2) \<and>
      (2 \<le> extraction_attempts (memory self) f \<longrightarrow>
         extraction_attempts (memory self') f = extraction_attempts (memory self) f)) \<and>
   (2 \<le> extraction_attempts (memory self) f \<and>
    generate_response self msgs extracted' rnd = (answer, self1) \<longrightarrow>
      (\<exists>g. g \<noteq> f \<and> extraction_attempts (memory self) g < 2 \<and> field_values g extracted' = [] \<and>
           answer = generate_extraction_question self (field_data_type g) rnd \<and>
           extraction_attempts (memory self1) g = extraction_attempts (memory self) g + 1) \<or>
      answer \<in> set (confusion_responses @ clarification_responses @ cooperative_responses @
                    concern_responses) \<or>
      answer = get_random_response self rnd)"
proof -
  have c: "(\<exists>g. g \<noteq> f \<and> extraction_attempts (memory self) g < 2 \<and> field_values g extracted' = [] \<and>
           answer = generate_extraction_question self (field_data_type g) rnd \<and>
           extraction_attempts (memory self1) g = extraction_attempts (memory self) g + 1) \<or>
      answer \<in> set (confusion_responses @ clarification_responses @ cooperative_responses @
                    concern_responses) \<or>
      answer = get_random_response self rnd"
    if "2 \<le> extraction_attempts (memory self) f" "generate_response self msgs extracted' rnd = (answer, self1)"
  proof -
    from generate_response_cases [OF that(2)] consider
        (a) g where "asks self extracted' rnd answer self1 g"
      | (b) "stalls self rnd answer self1" by blast
    then show ?thesis
    proof cases
      case a
      then have "g \<noteq> f" using that(1) by (auto simp: asks_def)
      moreover from a have "extraction_attempts (memory self1) g = extraction_attempts (memory self) g + 1"
        by (simp add: asks_def)
      ultimately show ?thesis using a unfolding asks_def by blast
    next
      case b
      then show ?thesis unfolding stalls_def by blast
    qed
  qed
  show ?thesis
    using determine_strategy_guard [of self msg extracted f] attempts_run [of _ _ self inputs f] c
    by blast
qed

theorem extraction_attempts_capped_witness:
  "determine_strategy example_agent_0 ''pay by upi or bank transfer'' empty_intelligence
     = field_strategy Upi \<and>
   field_values Upi empty_intelligence = [] \<and>
   extraction_attempts (memory example_agent_0) Upi < 2 \<and>
   2 \<le> extraction_attempts (memory example_agent_2) Upi \<and>
   extraction_attempts (memory example_agent_2) Upi \<le> 2 \<and>
   respond_all example_agent_2 [example_call] \<noteq> [] \<and>
   extraction_attempts (memory (snd (hd (respond_all example_agent_2 [example_call])))) Upi = 2 \<and>
   fst (generate_response example_agent_2 (fst example_call) empty_intelligence 0)
     = generate_extraction_question example_agent_2 (field_data_type Bank) 0"
proof -
  note a = extraction_attempts_capped
    [of example_agent_0 "''pay by upi or bank transfer''" empty_intelligence Upi
        "[example_call]" "fst example_call" empty_intelligence 0
        "fst (generate_response example_agent_0 (fst example_call) empty_intelligence 0)"
        "snd (generate_response example_agent_0 (fst example_call) empty_intelligence 0)"]
  note b = extraction_attempts_capped
    [of example_agent_2 "''pay by upi or bank transfer''" empty_intelligence Upi
        "[example_call]" "fst example_call" empty_intelligence 0
        "fst (generate_response example_agent_2 (fst example_call) empty_intelligence 0)"
        "snd (generate_response example_agent_2 (fst example_call) empty_intelligence 0)"]
  have "hd (respond_all example_agent_2 [example_call]) \<in> set (respond_all example_agent_2 [example_call])"
    using example_agent_facts(3) by simp
  then have c: "extraction_attempts (memory (snd (hd (respond_all example_agent_2 [example_call])))) Upi = 2"
    using b example_agent_facts(2) by (auto simp: case_prod_beta)
  have d: "fst (generate_response example_agent_2 (fst example_call) empty_intelligence 0)
     = generate_extraction_question example_agent_2 (field_data_type Bank) 0"
    by code_simp
  show ?thesis
    using a c d example_agent_facts by simp
qed

text \<open>
  The claim as stated fails where it says that the engine falls back to a stalling or
  cooperative strategy: after two UPI questions, a message that mentions UPI and a bank
  transfer is answered with the extraction question for the bank account.
\<close>

theorem fallback_is_another_question_counterexample:
  "extraction_attempts (memory example_agent_2) Upi = 2 \<and>
   determine_strategy (example_agent_2\<lparr>turn_count := turn_count example_agent_2 + 1\<rparr>)
     (lower ''pay by upi or bank transfer'') empty_intelligence = extract_bank \<and>
   extract_bank \<noteq> express_concern \<and> extract_bank \<noteq> express_confusion \<and>
   extract_bank \<noteq> ask_clarification \<and> extract_bank \<noteq> show_cooperation \<and>
   fst (generate_response example_agent_2 [scammer_says ''pay by upi or bank transfer'']
          empty_intelligence 0)
     = ''Which account should I transfer to? Can you give me the details? I want to make sure I do it correctly.''"
  by code_simp

end
